theory Spec2Isabelle
  imports Complex_Main "HOL-Library.Word"
begin

unbundle bit_operations_syntax

section \<open>Data model\<close>

text \<open>
  The burn phases of SystemState.h, in the order of the enum.
\<close>

datatype BurnState =
  BURN_RAMP | BURN_HOLD | BURN_IDLE | BURN_COALBED | BURN_BOOST | BURN_SAFETY

text \<open>
  The damper relay pin is active LOW: \<open>HIGH\<close> closes the damper, \<open>LOW\<close> opens it.
\<close>

datatype pin_level = LOW | HIGH

text \<open>
  \<open>millis()\<close> and every timestamp derived from it are \<open>unsigned long\<close>, 32 bits wide on
  the target; subtraction and multiplication wrap around.
\<close>

type_synonym millis = "32 word"

text \<open>
  A C \<open>double\<close> is either the not-a-number sentinel or a finite value. Finite doubles are
  embedded in the reals and their arithmetic is taken to be exact (rounding is not
  modelled); every ordered comparison with a NaN operand is false, as in IEEE 754.
\<close>

datatype dbl = NaN | Fin real

fun d_isnan :: "dbl \<Rightarrow> bool" where
  "d_isnan NaN = True"
| "d_isnan (Fin x) = False"

fun d_lt :: "dbl \<Rightarrow> dbl \<Rightarrow> bool" where
  "d_lt (Fin x) (Fin y) = (x < y)"
| "d_lt _ _ = False"

fun d_le :: "dbl \<Rightarrow> dbl \<Rightarrow> bool" where
  "d_le (Fin x) (Fin y) = (x \<le> y)"
| "d_le _ _ = False"

fun d_gt :: "dbl \<Rightarrow> dbl \<Rightarrow> bool" where
  "d_gt (Fin x) (Fin y) = (x > y)"
| "d_gt _ _ = False"

fun d_ge :: "dbl \<Rightarrow> dbl \<Rightarrow> bool" where
  "d_ge (Fin x) (Fin y) = (x \<ge> y)"
| "d_ge _ _ = False"

fun d_add :: "dbl \<Rightarrow> dbl \<Rightarrow> dbl" where
  "d_add (Fin x) (Fin y) = Fin (x + y)"
| "d_add _ _ = NaN"

fun d_sub :: "dbl \<Rightarrow> dbl \<Rightarrow> dbl" where
  "d_sub (Fin x) (Fin y) = Fin (x - y)"
| "d_sub _ _ = NaN"

fun d_mul :: "dbl \<Rightarrow> dbl \<Rightarrow> dbl" where
  "d_mul (Fin x) (Fin y) = Fin (x * y)"
| "d_mul _ _ = NaN"

fun d_fabs :: "dbl \<Rightarrow> dbl" where
  "d_fabs (Fin x) = Fin \<bar>x\<bar>"
| "d_fabs NaN = NaN"

text \<open>The implicit conversion of an integer operand to \<open>double\<close>.\<close>

definition d_of_int :: "int \<Rightarrow> dbl" where
  "d_of_int i = Fin (of_int i)"

text \<open>
  The conversion \<open>double\<close> to \<open>int\<close> truncates toward zero. It is undefined in C for NaN
  and for values whose integer part does not fit the 32-bit \<open>int\<close>: \<open>None\<close>.
\<close>

definition trunc_real :: "real \<Rightarrow> int" where
  "trunc_real x = (if 0 \<le> x then \<lfloor>x\<rfloor> else \<lceil>x\<rceil>)"

fun d2i :: "dbl \<Rightarrow> int option" where
  "d2i NaN = None"
| "d2i (Fin x) =
     (if - (2 ^ 31) \<le> trunc_real x \<and> trunc_real x < 2 ^ 31 then Some (trunc_real x) else None)"

text \<open>
  The tunable parameters, all \<open>int16_t\<close> globals of the main sketch. They are held as
  integers; \<open>to_int16\<close> is the narrowing conversion of an assignment to \<open>int16_t\<close>. The
  \<open>int\<close> arithmetic of the sources (32 bits on the target) works on these parameters and
  on percentages and stays far from its limits; it is modelled on the integers.
\<close>

record config =
  exhaustSetpoint :: int
  boostTimeSeconds :: int
  deadbandF :: int
  clampMinPercent :: int
  clampMaxPercent :: int
  deadzoneFanMode :: int
  coalBedTimerMinutes :: int
  flueLowThreshold :: int
  flueRecoveryThreshold :: int

definition to_int16 :: "int \<Rightarrow> int" where
  "to_int16 v = (v + 32768) mod 65536 - 32768"

text \<open>
  The globals of BurnEngine.cpp together with the phase and the level last written to the
  damper relay pin.
\<close>

record engine =
  burnState :: BurnState
  boostActive :: bool
  boostStartMs :: millis
  coalbedTimerActive :: bool
  coalbedStartMs :: millis
  holdTimerActive :: bool
  holdStartMs :: millis
  rampTimerActive :: bool
  rampStartMs :: millis
  damper :: pin_level

text \<open>The two stability windows: globals that are initialised and never assigned.\<close>

definition HOLD_STABILITY_MS :: millis where
  "HOLD_STABILITY_MS = 5000"

definition RAMP_STABILITY_MS :: millis where
  "RAMP_STABILITY_MS = 3000"

text \<open>The static memory of FanControl.cpp.\<close>

record fanctl =
  lastFan :: int
  fanOn :: bool
  prevBurnState :: BurnState

section \<open>Burn engine\<close>

text \<open>\<open>burnengine_init\<close>, with \<open>now\<close> the value of \<open>millis()\<close>.\<close>

definition burnengine_init :: "millis \<Rightarrow> engine \<Rightarrow> engine" where
  "burnengine_init now s =
     s\<lparr>burnState := BURN_BOOST, boostActive := True, boostStartMs := now,
       holdTimerActive := False, rampTimerActive := False, coalbedTimerActive := False,
       damper := HIGH\<rparr>"

definition burnengine_startBoost :: "millis \<Rightarrow> engine \<Rightarrow> engine" where
  "burnengine_startBoost now s =
     (if burnState s = BURN_SAFETY then s
      else s\<lparr>boostActive := True, boostStartMs := now, burnState := BURN_BOOST\<rparr>)"

text \<open>The Arduino macro \<open>constrain(amt, low, high)\<close>.\<close>

definition constrain :: "int \<Rightarrow> int \<Rightarrow> int \<Rightarrow> int" where
  "constrain amt low high = (if amt < low then low else if amt > high then high else amt)"

text \<open>The coal-bed entry block of \<open>burnengine_compute\<close>.\<close>

definition coalbed_entry :: "config \<Rightarrow> millis \<Rightarrow> dbl \<Rightarrow> engine \<Rightarrow> engine" where
  "coalbed_entry c now smoothExh s =
     (if d_lt smoothExh (d_of_int (flueLowThreshold c)) then
        let s1 = (if \<not> coalbedTimerActive s
                  then s\<lparr>coalbedTimerActive := True, coalbedStartMs := now\<rparr> else s);
            requiredMs = (word_of_int (coalBedTimerMinutes c) :: millis) * 60 * 1000
        in if coalbedTimerActive s1 \<and> now - coalbedStartMs s1 \<ge> requiredMs
           then s1\<lparr>burnState := BURN_COALBED, coalbedTimerActive := False,
                   holdTimerActive := False, rampTimerActive := False\<rparr>
           else s1
      else s\<lparr>coalbedTimerActive := False\<rparr>)"

text \<open>The \<open>switch (burnState)\<close> of \<open>burnengine_compute\<close>.\<close>

definition state_machine :: "config \<Rightarrow> millis \<Rightarrow> dbl \<Rightarrow> engine \<Rightarrow> engine" where
  "state_machine c now smoothExh s =
     (case burnState s of
        BURN_RAMP \<Rightarrow>
          (if d_ge smoothExh (d_of_int (exhaustSetpoint c - deadbandF c)) then
             let s1 = (if \<not> holdTimerActive s
                       then s\<lparr>holdTimerActive := True, holdStartMs := now\<rparr> else s)
             in if now - holdStartMs s1 \<ge> HOLD_STABILITY_MS
                then s1\<lparr>burnState := BURN_HOLD, holdTimerActive := False\<rparr>
                else s1
           else s\<lparr>holdTimerActive := False\<rparr>)
      | BURN_HOLD \<Rightarrow>
          (if d_lt smoothExh (d_of_int (exhaustSetpoint c - deadbandF c * 2)) then
             let s1 = (if \<not> rampTimerActive s
                       then s\<lparr>rampTimerActive := True, rampStartMs := now\<rparr> else s)
             in if now - rampStartMs s1 \<ge> RAMP_STABILITY_MS
                then s1\<lparr>burnState := BURN_RAMP, rampTimerActive := False,
                        holdTimerActive := False\<rparr>
                else s1
           else s\<lparr>rampTimerActive := False\<rparr>)
      | BURN_COALBED \<Rightarrow>
          (if d_gt smoothExh (d_of_int (exhaustSetpoint c - deadbandF c))
           then s\<lparr>burnState := BURN_RAMP, holdTimerActive := False, rampTimerActive := False\<rparr>
           else s)
      | BURN_IDLE \<Rightarrow> s
      | BURN_BOOST \<Rightarrow> s
      | BURN_SAFETY \<Rightarrow> s)"

definition damper_control :: "engine \<Rightarrow> engine" where
  "damper_control s =
     (if burnState s = BURN_IDLE then s\<lparr>damper := HIGH\<rparr> else s\<lparr>damper := LOW\<rparr>)"

text \<open>The HOLD fan curve; \<open>None\<close> where the conversion to \<open>int\<close> is undefined.\<close>

definition hold_fan_curve :: "config \<Rightarrow> dbl \<Rightarrow> int option" where
  "hold_fan_curve c smoothExh =
     (let error = d_sub (d_of_int (exhaustSetpoint c)) smoothExh in
      if d_le error (Fin 5) then Some (clampMinPercent c)
      else if d_le error (Fin 25) then
        (case d2i (d_add (d_of_int (clampMinPercent c)) (d_mul (d_sub error (Fin 5)) (Fin 2))) of
           None \<Rightarrow> None
         | Some fan \<Rightarrow>
             Some (constrain (min fan 80) (clampMinPercent c) (clampMaxPercent c)))
      else
        (case d2i (d_add (Fin 50) (d_mul (d_sub error (Fin 25)) (Fin 2))) of
           None \<Rightarrow> None
         | Some fan \<Rightarrow>
             Some (constrain (if d_le error (Fin 40) then min fan 80 else fan)
                     (clampMinPercent c) 100)))"

definition fan_demand :: "config \<Rightarrow> dbl \<Rightarrow> engine \<Rightarrow> int option" where
  "fan_demand c smoothExh s =
     (if burnState s = BURN_BOOST then Some 100
      else if burnState s = BURN_RAMP then Some 100
      else if burnState s = BURN_HOLD then hold_fan_curve c smoothExh
      else Some 0)"

text \<open>
  \<open>burnengine_compute\<close>: the raw fan demand (\<open>None\<close> where the C behaviour is undefined)
  and the globals after the call; \<open>now\<close> is the value \<open>millis()\<close> returns.
\<close>

definition burnengine_compute ::
  "config \<Rightarrow> millis \<Rightarrow> dbl \<Rightarrow> engine \<Rightarrow> int option \<times> engine" where
  "burnengine_compute c now smoothExh s =
     (if burnState s = BURN_SAFETY then
        (Some 0, s\<lparr>boostActive := False, coalbedTimerActive := False,
                   holdTimerActive := False, rampTimerActive := False, damper := HIGH\<rparr>)
      else if boostActive s \<and>
              now - boostStartMs s < (word_of_int (boostTimeSeconds c) :: millis) * 1000 then
        (Some 100, s\<lparr>burnState := BURN_BOOST, damper := LOW\<rparr>)
      else
        let s1 = (if boostActive s then s\<lparr>boostActive := False, burnState := BURN_RAMP\<rparr>
                  else s);
            s2 = coalbed_entry c now smoothExh s1;
            s3 = state_machine c now smoothExh s2;
            s4 = damper_control s3
        in (fan_demand c smoothExh s4, s4))"

section \<open>Fan shaping\<close>

text \<open>C integer division truncates toward zero.\<close>

definition c_div :: "int \<Rightarrow> int \<Rightarrow> int" where
  "c_div a b = sgn a * sgn b * (\<bar>a\<bar> div \<bar>b\<bar>)"

definition fancontrol_init :: "BurnState \<Rightarrow> fanctl" where
  "fancontrol_init phase = \<lparr>lastFan = 0, fanOn = False, prevBurnState = phase\<rparr>"

definition fancontrol_handleStateChange :: "BurnState \<Rightarrow> fanctl \<Rightarrow> fanctl" where
  "fancontrol_handleStateChange phase f =
     (if phase \<noteq> prevBurnState f then
        (if phase = BURN_BOOST \<or> phase = BURN_IDLE \<or> phase = BURN_SAFETY
         then f\<lparr>lastFan := 0, fanOn := False\<rparr> else f)\<lparr>prevBurnState := phase\<rparr>
      else f)"

text \<open>
  \<open>fan_compute\<close>; the global \<open>burnState\<close> it reads is the argument \<open>phase\<close>. The result is
  the returned percentage and the static memory after the call.
\<close>

definition fan_compute :: "config \<Rightarrow> BurnState \<Rightarrow> int \<Rightarrow> fanctl \<Rightarrow> int \<times> fanctl" where
  "fan_compute c phase demand f0 =
     (let f = fancontrol_handleStateChange phase f0 in
      if phase = BURN_SAFETY then (0, f\<lparr>lastFan := 0, fanOn := False\<rparr>)
      else if phase = BURN_BOOST then (100, f\<lparr>lastFan := 100, fanOn := True\<rparr>)
      else
        let fan = c_div (lastFan f * 3 + demand) 4;
            f1 = f\<lparr>lastFan := fan\<rparr>;
            fan1 = (if fan > clampMaxPercent c then clampMaxPercent c else fan)
        in if deadzoneFanMode c = 1 then
             ((if fan1 < clampMinPercent c then clampMinPercent c else fan1), f1)
           else
             let onThreshold = clampMinPercent c + 10;
                 offThreshold = clampMinPercent c;
                 on1 = (if \<not> fanOn f1 \<and> fan1 > onThreshold then True else fanOn f1);
                 on2 = (if on1 \<and> fan1 < offThreshold then False else on1)
             in ((if on2 then fan1 else 0), f1\<lparr>fanOn := on2\<rparr>))"

text \<open>
  Steps 2 and 3 of \<open>loop()\<close>: the engine, then the shaping layer on the phase the engine
  left behind. The result is the raw demand, the final percentage and both memories.
\<close>

definition control_tick ::
  "config \<Rightarrow> millis \<Rightarrow> dbl \<Rightarrow> engine \<times> fanctl \<Rightarrow> (int \<times> int \<times> engine \<times> fanctl) option" where
  "control_tick c now smoothExh st =
     (case burnengine_compute c now smoothExh (fst st) of
        (None, s') \<Rightarrow> None
      | (Some rawFan, s') \<Rightarrow>
          (case fan_compute c (burnState s') rawFan (snd st) of
             (finalFan, f') \<Rightarrow> Some (rawFan, finalFan, s', f')))"

text \<open>A run of control ticks of the engine alone, each with its clock value and temperature.\<close>

fun run_ticks :: "config \<Rightarrow> engine \<Rightarrow> (millis \<times> dbl) list \<Rightarrow> engine" where
  "run_ticks c s [] = s"
| "run_ticks c s (x # xs) = run_ticks c (snd (burnengine_compute c (fst x) (snd x) s)) xs"

text \<open>
  The two conditions the engine evaluates on the smoothed temperature, named: the HOLD
  band test of the RAMP case, and the firing test of the coal-bed entry block (below the
  flue-low threshold, with the entry timer, started now when it was not running, at or
  past the configured minutes).
\<close>

definition in_hold_band :: "config \<Rightarrow> dbl \<Rightarrow> bool" where
  "in_hold_band c smoothExh = d_ge smoothExh (d_of_int (exhaustSetpoint c - deadbandF c))"

definition coalbed_fires :: "config \<Rightarrow> millis \<Rightarrow> dbl \<Rightarrow> engine \<Rightarrow> bool" where
  "coalbed_fires c now smoothExh s =
     (d_lt smoothExh (d_of_int (flueLowThreshold c)) \<and>
      now - (if coalbedTimerActive s then coalbedStartMs s else now)
        \<ge> (word_of_int (coalBedTimerMinutes c) :: millis) * 60 * 1000)"

text \<open>
  \<open>has_window c now ts\<close>: some non-empty final stretch of the ticks \<open>ts\<close> lies wholly in
  the HOLD band and began at least 5000 ms (as the 32-bit clock difference) before \<open>now\<close>.
\<close>

fun has_window :: "config \<Rightarrow> millis \<Rightarrow> (millis \<times> dbl) list \<Rightarrow> bool" where
  "has_window c now [] = False"
| "has_window c now (x # xs) =
     ((list_all (\<lambda>y. in_hold_band c (snd y)) (x # xs) \<and> now - fst x \<ge> 5000)
      \<or> has_window c now xs)"

text \<open>
  The invariant that ties the HOLD timer to the ticks seen so far: a running timer belongs
  to phase RAMP and was started on the first tick of a final stretch of in-band ticks.
\<close>

definition hold_timer_sound :: "config \<Rightarrow> (millis \<times> dbl) list \<Rightarrow> engine \<Rightarrow> bool" where
  "hold_timer_sound c ts s =
     (holdTimerActive s \<longrightarrow>
        burnState s = BURN_RAMP \<and>
        (\<exists>pre win. ts = pre @ win \<and> win \<noteq> [] \<and> (\<forall>x \<in> set win. in_hold_band c (snd x))
           \<and> fst (hd win) = holdStartMs s))"

text \<open>
  The same for the coal-bed entry: the threshold test, a final stretch of ticks wholly
  below the flue-low threshold that began at least the configured minutes before \<open>now\<close>,
  and the invariant of the entry timer.
\<close>

definition below_flue_low :: "config \<Rightarrow> dbl \<Rightarrow> bool" where
  "below_flue_low c smoothExh = d_lt smoothExh (d_of_int (flueLowThreshold c))"

fun has_low_window :: "config \<Rightarrow> millis \<Rightarrow> (millis \<times> dbl) list \<Rightarrow> bool" where
  "has_low_window c now [] = False"
| "has_low_window c now (x # xs) =
     ((list_all (\<lambda>y. below_flue_low c (snd y)) (x # xs)
       \<and> now - fst x \<ge> (word_of_int (coalBedTimerMinutes c) :: millis) * 60 * 1000)
      \<or> has_low_window c now xs)"

definition coalbed_timer_sound :: "config \<Rightarrow> (millis \<times> dbl) list \<Rightarrow> engine \<Rightarrow> bool" where
  "coalbed_timer_sound c ts s =
     (coalbedTimerActive s \<longrightarrow>
        (\<exists>pre win. ts = pre @ win \<and> win \<noteq> []
           \<and> (\<forall>x \<in> set win. below_flue_low c (snd x))
           \<and> fst (hd win) = coalbedStartMs s))"

text \<open>Phase RAMP with the boost window closed and no timer running.\<close>

definition ramp_fresh :: engine where
  "ramp_fresh =
     \<lparr>burnState = BURN_RAMP, boostActive = False, boostStartMs = 0,
      coalbedTimerActive = False, coalbedStartMs = 0,
      holdTimerActive = False, holdStartMs = 0,
      rampTimerActive = False, rampStartMs = 0, damper = LOW\<rparr>"

section \<open>Sensor acquisition\<close>

record sensors =
  lastTCRead :: millis
  lastTCValueF :: dbl

text \<open>The four bytes clocked out of the MAX31855, most significant first.\<close>

type_synonym spi_bytes = "8 word \<times> 8 word \<times> 8 word \<times> 8 word"

definition spi_raw :: "spi_bytes \<Rightarrow> 32 word" where
  "spi_raw bs =
     (case bs of (b0, b1, b2, b3) \<Rightarrow>
        push_bit 24 (ucast b0) OR push_bit 16 (ucast b1) OR push_bit 8 (ucast b2) OR ucast b3)"

definition fault_bit :: "spi_bytes \<Rightarrow> bool" where
  "fault_bit bs = (spi_raw bs AND 0x00010000 \<noteq> 0)"

text \<open>The 14-bit thermocouple field, sign-extended into an \<open>int16_t\<close>.\<close>

definition tcData :: "spi_bytes \<Rightarrow> 16 word" where
  "tcData bs =
     (let d = (ucast (drop_bit 18 (spi_raw bs) AND 0x3FFF) :: 16 word)
      in if d AND 0x2000 \<noteq> 0 then d OR 0xC000 else d)"

definition tempF :: "spi_bytes \<Rightarrow> real" where
  "tempF bs = (real_of_int (sint (tcData bs)) * 0.25) * 9 / 5 + 32"

definition readMAX31855_F :: "spi_bytes \<Rightarrow> dbl" where
  "readMAX31855_F bs =
     (if fault_bit bs then NaN
      else if tempF bs < - 100 \<or> tempF bs > 2000 then NaN
      else Fin (tempF bs))"

text \<open>
  \<open>exhaust_readF_cached\<close>: \<open>now\<close> is \<open>millis()\<close>, \<open>bs\<close> the frame the hardware delivers
  if a read is attempted on this call.
\<close>

definition exhaust_readF_cached :: "millis \<Rightarrow> spi_bytes \<Rightarrow> sensors \<Rightarrow> dbl \<times> sensors" where
  "exhaust_readF_cached now bs s =
     (if now - lastTCRead s \<ge> 500 then
        let s1 = s\<lparr>lastTCRead := now\<rparr>;
            t = readMAX31855_F bs
        in if \<not> d_isnan t then
             (if \<not> d_isnan (lastTCValueF s1) \<and>
                 d_gt (d_fabs (d_sub t (lastTCValueF s1))) (Fin 150)
              then (lastTCValueF s1, s1)
              else (t, s1\<lparr>lastTCValueF := t\<rparr>))
           else (lastTCValueF s1, s1)
      else (lastTCValueF s, s))"

definition sensors_initial :: sensors where
  "sensors_initial = \<lparr>lastTCRead = 0, lastTCValueF = NaN\<rparr>"

fun read_run :: "sensors \<Rightarrow> (millis \<times> spi_bytes) list \<Rightarrow> sensors" where
  "read_run s [] = s"
| "read_run s (x # xs) = read_run (snd (exhaust_readF_cached (fst x) (snd x) s)) xs"

text \<open>
  The three grounds for rejecting a sample, against the cached value \<open>cache\<close>: the fault
  bit, the plausible range, the spike threshold.
\<close>

definition sample_rejected :: "dbl \<Rightarrow> spi_bytes \<Rightarrow> bool" where
  "sample_rejected cache bs =
     (fault_bit bs \<or> tempF bs < - 100 \<or> tempF bs > 2000 \<or>
      (case cache of NaN \<Rightarrow> False | Fin v \<Rightarrow> \<bar>tempF bs - v\<bar> > 150))"

definition cache_plausible :: "dbl \<Rightarrow> bool" where
  "cache_plausible d = (case d of NaN \<Rightarrow> True | Fin v \<Rightarrow> - 100 \<le> v \<and> v \<le> 2000)"

section \<open>Parameter store and parameter editors\<close>

text \<open>
  \<open>validateSettings\<close> is a sequence of repairs \<open>if (p out of range) p = d;\<close>. Each is a
  step of its own here, the assignment of \<open>if p out of range then d else p\<close> to the
  parameter; \<open>validateSettings\<close> runs them in the order of the source.
\<close>

definition repair_setpoint :: "config \<Rightarrow> config" where
  "repair_setpoint c =
     c\<lparr>exhaustSetpoint :=
         (if exhaustSetpoint c < 100 \<or> exhaustSetpoint c > 900 then 350
          else exhaustSetpoint c)\<rparr>"

definition repair_boostTime :: "config \<Rightarrow> config" where
  "repair_boostTime c =
     c\<lparr>boostTimeSeconds :=
         (if boostTimeSeconds c < 0 \<or> boostTimeSeconds c > 1800 then 30
          else boostTimeSeconds c)\<rparr>"

definition repair_deadband :: "config \<Rightarrow> config" where
  "repair_deadband c =
     c\<lparr>deadbandF := (if deadbandF c < 0 \<or> deadbandF c > 200 then 25 else deadbandF c)\<rparr>"

definition repair_clampMin :: "config \<Rightarrow> config" where
  "repair_clampMin c =
     c\<lparr>clampMinPercent :=
         (if clampMinPercent c < 0 \<or> clampMinPercent c > 100 then 10
          else clampMinPercent c)\<rparr>"

definition repair_clampMax :: "config \<Rightarrow> config" where
  "repair_clampMax c =
     c\<lparr>clampMaxPercent :=
         (if clampMaxPercent c < 0 \<or> clampMaxPercent c > 100 then 100
          else clampMaxPercent c)\<rparr>"

definition repair_clampOrder :: "config \<Rightarrow> config" where
  "repair_clampOrder c =
     c\<lparr>clampMinPercent :=
         (if clampMinPercent c > clampMaxPercent c then clampMaxPercent c
          else clampMinPercent c)\<rparr>"

definition repair_deadzone :: "config \<Rightarrow> config" where
  "repair_deadzone c =
     c\<lparr>deadzoneFanMode :=
         (if deadzoneFanMode c \<noteq> 0 \<and> deadzoneFanMode c \<noteq> 1 then 0
          else deadzoneFanMode c)\<rparr>"

definition repair_coalBedTimer :: "config \<Rightarrow> config" where
  "repair_coalBedTimer c =
     c\<lparr>coalBedTimerMinutes :=
         (if coalBedTimerMinutes c < 0 \<or> coalBedTimerMinutes c > 720 then 30
          else coalBedTimerMinutes c)\<rparr>"

definition repair_flueLow :: "config \<Rightarrow> config" where
  "repair_flueLow c =
     c\<lparr>flueLowThreshold :=
         (if flueLowThreshold c < 0 \<or> flueLowThreshold c > 900 then 250
          else flueLowThreshold c)\<rparr>"

definition repair_flueRecovery :: "config \<Rightarrow> config" where
  "repair_flueRecovery c =
     c\<lparr>flueRecoveryThreshold :=
         (if flueRecoveryThreshold c < 0 \<or> flueRecoveryThreshold c > 900
          then to_int16 (flueLowThreshold c + 50) else flueRecoveryThreshold c)\<rparr>"

definition repair_flueGap :: "config \<Rightarrow> config" where
  "repair_flueGap c =
     c\<lparr>flueRecoveryThreshold :=
         (if flueRecoveryThreshold c < flueLowThreshold c + 10
          then to_int16 (flueLowThreshold c + 50) else flueRecoveryThreshold c)\<rparr>"

definition validateSettings :: "config \<Rightarrow> config" where
  "validateSettings c =
     repair_flueGap (repair_flueRecovery (repair_flueLow (repair_coalBedTimer
       (repair_deadzone (repair_clampOrder (repair_clampMax (repair_clampMin
         (repair_deadband (repair_boostTime (repair_setpoint c))))))))))"

definition factory_defaults :: config where
  "factory_defaults =
     \<lparr>exhaustSetpoint = 350, boostTimeSeconds = 30, deadbandF = 25,
      clampMinPercent = 10, clampMaxPercent = 100, deadzoneFanMode = 0,
      coalBedTimerMinutes = 30, flueLowThreshold = 250, flueRecoveryThreshold = 300\<rparr>"

definition EEPROM_VERSION :: "8 word" where
  "EEPROM_VERSION = 1"

text \<open>
  The in-memory side of the store: what each routine leaves in the globals. The bytes
  written are not modelled; \<open>stored\<close> is what the nine cells hold at start-up and \<open>ver\<close>
  the version byte.
\<close>

definition eeprom_saveAll :: "config \<Rightarrow> config" where
  "eeprom_saveAll c = validateSettings c"

definition eeprom_init :: "8 word \<Rightarrow> config \<Rightarrow> config" where
  "eeprom_init ver stored =
     (if ver \<noteq> EEPROM_VERSION then eeprom_saveAll (validateSettings factory_defaults)
      else eeprom_saveAll (validateSettings stored))"

definition eeprom_saveSetpoint :: "int \<Rightarrow> config \<Rightarrow> config" where
  "eeprom_saveSetpoint v c = validateSettings (c\<lparr>exhaustSetpoint := to_int16 v\<rparr>)"

definition eeprom_saveBoostTime :: "int \<Rightarrow> config \<Rightarrow> config" where
  "eeprom_saveBoostTime v c = validateSettings (c\<lparr>boostTimeSeconds := to_int16 v\<rparr>)"

definition eeprom_saveDeadband :: "int \<Rightarrow> config \<Rightarrow> config" where
  "eeprom_saveDeadband v c = validateSettings (c\<lparr>deadbandF := to_int16 v\<rparr>)"

definition eeprom_saveClampMin :: "int \<Rightarrow> config \<Rightarrow> config" where
  "eeprom_saveClampMin v c = validateSettings (c\<lparr>clampMinPercent := to_int16 v\<rparr>)"

definition eeprom_saveClampMax :: "int \<Rightarrow> config \<Rightarrow> config" where
  "eeprom_saveClampMax v c = validateSettings (c\<lparr>clampMaxPercent := to_int16 v\<rparr>)"

definition eeprom_saveDeadzone :: "int \<Rightarrow> config \<Rightarrow> config" where
  "eeprom_saveDeadzone v c =
     validateSettings (c\<lparr>deadzoneFanMode := to_int16 (if v \<noteq> 0 then 1 else 0)\<rparr>)"

definition eeprom_saveCoalBedTimer :: "int \<Rightarrow> config \<Rightarrow> config" where
  "eeprom_saveCoalBedTimer v c = validateSettings (c\<lparr>coalBedTimerMinutes := to_int16 v\<rparr>)"

definition eeprom_saveFlueLow :: "int \<Rightarrow> config \<Rightarrow> config" where
  "eeprom_saveFlueLow v c = validateSettings (c\<lparr>flueLowThreshold := to_int16 v\<rparr>)"

definition eeprom_saveFlueRecovery :: "int \<Rightarrow> config \<Rightarrow> config" where
  "eeprom_saveFlueRecovery v c = validateSettings (c\<lparr>flueRecoveryThreshold := to_int16 v\<rparr>)"

datatype UIState =
  UI_HOME | UI_SETPOINT | UI_BOOSTTIME | UI_SYSTEM | UI_DEADBAND | UI_CLAMP_MENU
| UI_CLAMP_MIN | UI_CLAMP_MAX | UI_COALBED_TIMER | UI_FLUE_LOW | UI_FLUE_REC

text \<open>
  The parameter edits of \<open>ui_handleKey\<close>, by screen: what the committing key leaves in the
  configuration. In an editor screen that key is \<open>#\<close> on a non-empty entry whose
  \<open>toInt()\<close> is \<open>v0\<close>; in the clamp menu it is \<open>3\<close>, which toggles the deadzone mode. The
  other screens edit nothing. (The boost-time editor also calls \<open>burnengine_startBoost\<close>,
  which changes the engine globals and no parameter.)
\<close>

fun ui_commit :: "UIState \<Rightarrow> int \<Rightarrow> config \<Rightarrow> config" where
  "ui_commit UI_SETPOINT v0 c =
     (let v1 = (if v0 < 200 then 200 else v0);
          v = (if v1 > 900 then 900 else v1)
      in eeprom_saveSetpoint v (c\<lparr>exhaustSetpoint := to_int16 v\<rparr>))"
| "ui_commit UI_BOOSTTIME v0 c =
     (let v1 = (if v0 < 5 then 5 else v0);
          v = (if v1 > 300 then 300 else v1)
      in eeprom_saveBoostTime v (c\<lparr>boostTimeSeconds := to_int16 v\<rparr>))"
| "ui_commit UI_DEADBAND v0 c =
     (let v1 = (if v0 < 1 then 1 else v0);
          v = (if v1 > 100 then 100 else v1)
      in eeprom_saveDeadband v (c\<lparr>deadbandF := to_int16 v\<rparr>))"
| "ui_commit UI_CLAMP_MENU v0 c =
     (let c1 = c\<lparr>deadzoneFanMode := (if deadzoneFanMode c \<noteq> 0 then 0 else 1)\<rparr>
      in eeprom_saveDeadzone (deadzoneFanMode c1) c1)"
| "ui_commit UI_CLAMP_MIN v0 c =
     (let v1 = (if v0 < 0 then 0 else v0);
          v = (if v1 > 100 then 100 else v1)
      in eeprom_saveClampMin v (c\<lparr>clampMinPercent := to_int16 v\<rparr>))"
| "ui_commit UI_CLAMP_MAX v0 c =
     (let v1 = (if v0 < 0 then 0 else v0);
          v = (if v1 > 100 then 100 else v1)
      in eeprom_saveClampMax v (c\<lparr>clampMaxPercent := to_int16 v\<rparr>))"
| "ui_commit UI_COALBED_TIMER v0 c =
     (let v1 = (if v0 < 5 then 5 else v0);
          v = (if v1 > 60 then 60 else v1)
      in eeprom_saveCoalBedTimer v (c\<lparr>coalBedTimerMinutes := to_int16 v\<rparr>))"
| "ui_commit UI_FLUE_LOW v0 c =
     (let v1 = (if v0 < 200 then 200 else v0);
          v = (if v1 > 500 then 500 else v1)
      in eeprom_saveFlueLow v (c\<lparr>flueLowThreshold := to_int16 v\<rparr>))"
| "ui_commit UI_FLUE_REC v0 c =
     (let v1 = (if v0 < flueLowThreshold c + 10 then flueLowThreshold c + 10 else v0);
          v = (if v1 > 600 then 600 else v1)
      in eeprom_saveFlueRecovery v (c\<lparr>flueRecoveryThreshold := to_int16 v\<rparr>))"
| "ui_commit UI_HOME v0 c = c"
| "ui_commit UI_SYSTEM v0 c = c"

fun ui_commits :: "config \<Rightarrow> (UIState \<times> int) list \<Rightarrow> config" where
  "ui_commits c [] = c"
| "ui_commits c (e # es) = ui_commits (ui_commit (fst e) (snd e) c) es"

text \<open>The two cross-parameter inequalities of the configuration.\<close>

definition settings_consistent :: "config \<Rightarrow> bool" where
  "settings_consistent c =
     (clampMinPercent c \<le> clampMaxPercent c \<and>
      flueRecoveryThreshold c \<ge> flueLowThreshold c + 10)"

text \<open>What \<open>validateSettings\<close> leaves behind: every parameter within its repair bounds.\<close>

definition settings_valid :: "config \<Rightarrow> bool" where
  "settings_valid c =
     (100 \<le> exhaustSetpoint c \<and> exhaustSetpoint c \<le> 900 \<and>
      0 \<le> boostTimeSeconds c \<and> boostTimeSeconds c \<le> 1800 \<and>
      0 \<le> deadbandF c \<and> deadbandF c \<le> 200 \<and>
      0 \<le> clampMinPercent c \<and> clampMinPercent c \<le> clampMaxPercent c \<and>
      clampMaxPercent c \<le> 100 \<and>
      (deadzoneFanMode c = 0 \<or> deadzoneFanMode c = 1) \<and>
      0 \<le> coalBedTimerMinutes c \<and> coalBedTimerMinutes c \<le> 720 \<and>
      0 \<le> flueLowThreshold c \<and> flueLowThreshold c \<le> 900 \<and>
      flueLowThreshold c + 10 \<le> flueRecoveryThreshold c \<and>
      (flueRecoveryThreshold c \<le> 900 \<or>
       flueRecoveryThreshold c = flueLowThreshold c + 50))"

section \<open>The statements of the specification, as written\<close>

text \<open>Clamping a value into an interval.\<close>

definition clamp_into :: "'a::linorder \<Rightarrow> 'a \<Rightarrow> 'a \<Rightarrow> 'a" where
  "clamp_into lo hi x = max lo (min hi x)"

text \<open>
  The HOLD curve in the specification's words, on the real-valued
  \<open>error = setpoint - smoothed temperature\<close>.
\<close>

definition hold_curve_spec :: "config \<Rightarrow> real \<Rightarrow> real" where
  "hold_curve_spec c error =
     (if error \<le> 5 then real_of_int (clampMinPercent c)
      else if error \<le> 25 then
        clamp_into (real_of_int (clampMinPercent c)) (real_of_int (clampMaxPercent c))
          (min (real_of_int (clampMinPercent c) + (error - 5) * 2) 80)
      else
        clamp_into (real_of_int (clampMinPercent c)) 100
          (if error \<le> 40 then min (50 + (error - 25) * 2) 80 else 50 + (error - 25) * 2))"


section \<open>Facts about one engine tick\<close>

lemma coalbed_entry_fired:
  "coalbed_fires c now t s \<Longrightarrow>
     burnState (coalbed_entry c now t s) = BURN_COALBED
   \<and> \<not> holdTimerActive (coalbed_entry c now t s)
   \<and> \<not> rampTimerActive (coalbed_entry c now t s)
   \<and> \<not> coalbedTimerActive (coalbed_entry c now t s)"
  by (simp add: coalbed_entry_def coalbed_fires_def Let_def split: if_splits)

lemma coalbed_entry_not_fired:
  "\<not> coalbed_fires c now t s \<Longrightarrow>
     coalbed_entry c now t s =
       (if d_lt t (d_of_int (flueLowThreshold c))
        then (if coalbedTimerActive s then s
              else s\<lparr>coalbedTimerActive := True, coalbedStartMs := now\<rparr>)
        else s\<lparr>coalbedTimerActive := False\<rparr>)"
  by (auto simp add: coalbed_entry_def coalbed_fires_def Let_def)

lemma coalbed_entry_boost [simp]:
  "boostActive (coalbed_entry c now t s) = boostActive s"
  by (simp add: coalbed_entry_def Let_def)

lemma coalbed_entry_cases:
  "(burnState (coalbed_entry c now t s) = BURN_COALBED
      \<and> \<not> holdTimerActive (coalbed_entry c now t s))
   \<or> (burnState (coalbed_entry c now t s) = burnState s
      \<and> holdTimerActive (coalbed_entry c now t s) = holdTimerActive s
      \<and> holdStartMs (coalbed_entry c now t s) = holdStartMs s)"
  by (simp add: coalbed_entry_def Let_def)

lemma damper_control_fields [simp]:
  "burnState (damper_control s) = burnState s"
  "holdTimerActive (damper_control s) = holdTimerActive s"
  "holdStartMs (damper_control s) = holdStartMs s"
  "rampTimerActive (damper_control s) = rampTimerActive s"
  "coalbedTimerActive (damper_control s) = coalbedTimerActive s"
  "coalbedStartMs (damper_control s) = coalbedStartMs s"
  "boostActive (damper_control s) = boostActive s"
  by (simp_all add: damper_control_def)

lemma state_machine_keeps [simp]:
  "coalbedTimerActive (state_machine c now t s) = coalbedTimerActive s"
  "coalbedStartMs (state_machine c now t s) = coalbedStartMs s"
  "boostActive (state_machine c now t s) = boostActive s"
  by (simp_all add: state_machine_def Let_def split: BurnState.split)

lemma state_machine_ramp:
  "burnState s = BURN_RAMP \<Longrightarrow>
   state_machine c now t s =
     (if in_hold_band c t then
        (if holdTimerActive s then
           (if now - holdStartMs s \<ge> 5000
            then s\<lparr>burnState := BURN_HOLD, holdTimerActive := False\<rparr> else s)
         else s\<lparr>holdTimerActive := True, holdStartMs := now\<rparr>)
      else s\<lparr>holdTimerActive := False\<rparr>)"
  by (simp add: state_machine_def in_hold_band_def HOLD_STABILITY_MS_def Let_def)

lemma state_machine_coalbed:
  "burnState s = BURN_COALBED \<Longrightarrow>
   state_machine c now t s =
     (if d_gt t (d_of_int (exhaustSetpoint c - deadbandF c))
      then s\<lparr>burnState := BURN_RAMP, holdTimerActive := False, rampTimerActive := False\<rparr>
      else s)"
  by (simp add: state_machine_def)

lemma state_machine_no_coalbed:
  "burnState s \<noteq> BURN_COALBED \<Longrightarrow> burnState (state_machine c now t s) \<noteq> BURN_COALBED"
  by (cases "burnState s") (simp_all add: state_machine_def Let_def)

lemma state_machine_hold_entry:
  "burnState (state_machine c now t s) = BURN_HOLD \<Longrightarrow> burnState s \<noteq> BURN_HOLD \<Longrightarrow>
     burnState s = BURN_RAMP \<and> in_hold_band c t \<and> holdTimerActive s
     \<and> now - holdStartMs s \<ge> 5000"
  by (cases "burnState s")
     (auto simp add: state_machine_def in_hold_band_def HOLD_STABILITY_MS_def Let_def
           split: if_splits)

lemma state_machine_timer:
  assumes "holdTimerActive s \<longrightarrow> burnState s = BURN_RAMP"
  shows "holdTimerActive (state_machine c now t s) \<longrightarrow>
           burnState (state_machine c now t s) = BURN_RAMP \<and> in_hold_band c t
           \<and> holdStartMs (state_machine c now t s)
               = (if holdTimerActive s then holdStartMs s else now)"
  using assms
  by (cases "burnState s")
     (auto simp add: state_machine_def in_hold_band_def Let_def)

text \<open>
  A tick that passes the SAFETY and BOOST overrides is the coal-bed entry, the phase switch,
  the damper rule and the fan demand, in this order.
\<close>

lemma tick_past_overrides:
  "burnState s \<noteq> BURN_SAFETY \<Longrightarrow> \<not> boostActive s \<Longrightarrow>
   burnengine_compute c now t s =
     (fan_demand c t (damper_control (state_machine c now t (coalbed_entry c now t s))),
      damper_control (state_machine c now t (coalbed_entry c now t s)))"
  by (simp add: burnengine_compute_def Let_def)

lemma tick_keeps_boost_closed:
  "\<not> boostActive s \<Longrightarrow> \<not> boostActive (snd (burnengine_compute c now t s))"
  by (cases "burnState s = BURN_SAFETY") (simp_all add: burnengine_compute_def Let_def)

lemma ramp_to_hold_tick:
  assumes "burnState s = BURN_RAMP" and "\<not> boostActive s"
  shows "(burnState (snd (burnengine_compute c now t s)) = BURN_HOLD \<longleftrightarrow>
            in_hold_band c t \<and> holdTimerActive s \<and> now - holdStartMs s \<ge> 5000
            \<and> \<not> coalbed_fires c now t s)
       \<and> (\<not> in_hold_band c t \<longrightarrow>
            \<not> holdTimerActive (snd (burnengine_compute c now t s)))
       \<and> (in_hold_band c t \<and> \<not> coalbed_fires c now t s
            \<and> \<not> (holdTimerActive s \<and> now - holdStartMs s \<ge> 5000) \<longrightarrow>
            burnState (snd (burnengine_compute c now t s)) = BURN_RAMP
            \<and> holdTimerActive (snd (burnengine_compute c now t s))
            \<and> holdStartMs (snd (burnengine_compute c now t s))
                = (if holdTimerActive s then holdStartMs s else now))"
proof (cases "coalbed_fires c now t s")
  case True
  note f = coalbed_entry_fired [OF True]
  show ?thesis
    using assms True f
    by (simp add: tick_past_overrides state_machine_coalbed)
next
  case False
  have e: "burnState (coalbed_entry c now t s) = BURN_RAMP"
      "holdTimerActive (coalbed_entry c now t s) = holdTimerActive s"
      "holdStartMs (coalbed_entry c now t s) = holdStartMs s"
    using assms by (simp_all add: coalbed_entry_not_fired [OF False])
  show ?thesis
    using assms False e
    by (simp add: tick_past_overrides state_machine_ramp)
qed

lemma tick_timer:
  assumes "\<not> boostActive s" and "holdTimerActive s \<longrightarrow> burnState s = BURN_RAMP"
    and "holdTimerActive (snd (burnengine_compute c now t s))"
  shows "burnState (snd (burnengine_compute c now t s)) = BURN_RAMP \<and> in_hold_band c t
       \<and> holdStartMs (snd (burnengine_compute c now t s))
           = (if holdTimerActive s then holdStartMs s else now)"
proof (cases "burnState s = BURN_SAFETY")
  case True
  with assms show ?thesis by (simp add: burnengine_compute_def)
next
  case False
  let ?e = "coalbed_entry c now t s"
  have s': "snd (burnengine_compute c now t s) = damper_control (state_machine c now t ?e)"
    using False assms(1) by (simp add: tick_past_overrides)
  have a: "holdTimerActive (state_machine c now t ?e)"
    using assms(3) by (simp add: s')
  have j: "holdTimerActive ?e \<longrightarrow> burnState ?e = BURN_RAMP"
    using coalbed_entry_cases [of c now t s] assms(2) by auto
  from state_machine_timer [OF j, of c now t] a
  have r: "burnState (state_machine c now t ?e) = BURN_RAMP" "in_hold_band c t"
      "holdStartMs (state_machine c now t ?e)
         = (if holdTimerActive ?e then holdStartMs ?e else now)"
    by simp_all
  have k: "holdTimerActive ?e \<longrightarrow> holdTimerActive s \<and> holdStartMs ?e = holdStartMs s"
    using coalbed_entry_cases [of c now t s] by auto
  have k2: "\<not> holdTimerActive ?e \<longrightarrow> \<not> holdTimerActive s \<or> burnState ?e = BURN_COALBED"
    using coalbed_entry_cases [of c now t s] by auto
  have k3: "burnState ?e = BURN_COALBED \<longrightarrow> \<not> holdTimerActive (state_machine c now t ?e)"
    using coalbed_entry_cases [of c now t s] assms(2)
    by (auto simp add: state_machine_coalbed)
  show ?thesis using r k k2 k3 a by (auto simp add: s')
qed

lemma tick_hold_entry:
  assumes "\<not> boostActive s" and "burnState s \<noteq> BURN_HOLD"
    and "burnState (snd (burnengine_compute c now t s)) = BURN_HOLD"
  shows "burnState s = BURN_RAMP \<and> in_hold_band c t \<and> holdTimerActive s
       \<and> now - holdStartMs s \<ge> 5000"
proof (cases "burnState s = BURN_SAFETY")
  case True
  with assms show ?thesis by (simp add: burnengine_compute_def)
next
  case False
  let ?e = "coalbed_entry c now t s"
  have s': "snd (burnengine_compute c now t s) = damper_control (state_machine c now t ?e)"
    using False assms(1) by (simp add: tick_past_overrides)
  have h: "burnState (state_machine c now t ?e) = BURN_HOLD"
    using assms(3) by (simp add: s')
  have n: "burnState ?e \<noteq> BURN_HOLD"
    using coalbed_entry_cases [of c now t s] assms(2) by auto
  from state_machine_hold_entry [OF h n]
  have r: "burnState ?e = BURN_RAMP" "in_hold_band c t" "holdTimerActive ?e"
      "now - holdStartMs ?e \<ge> 5000"
    by simp_all
  show ?thesis using r coalbed_entry_cases [of c now t s] by auto
qed

text \<open>
  The coal-bed entry timer cannot fire on the tick that starts it when the configured
  minutes lie in the range the store accepts and are not zero.
\<close>

lemma required_ms_nonzero:
  assumes "1 \<le> m" and "m \<le> 720"
  shows "(word_of_int m :: millis) * 60 * 1000 \<noteq> 0"
proof -
  have ne: "(word_of_int (m * 60000) :: millis) \<noteq> 0"
  proof
    assume "(word_of_int (m * 60000) :: millis) = 0"
    then have "2 ^ LENGTH(32) dvd m * 60000"
      by (rule iffD1 [OF word_of_int_eq_0_iff])
    then have "(2 ^ 32 :: int) dvd m * 60000" by simp
    moreover have "0 < m * 60000" using assms by simp
    ultimately have "(2 ^ 32 :: int) \<le> m * 60000" by (rule zdvd_imp_le)
    then show False using assms by simp
  qed
  then show ?thesis by (simp add: mult.commute)
qed

section \<open>Facts about runs of ticks\<close>

lemma run_ticks_snoc:
  "run_ticks c s (ts @ [x]) = snd (burnengine_compute c (fst x) (snd x) (run_ticks c s ts))"
  by (induction ts arbitrary: s) simp_all

lemma has_window_suffix:
  "ts = pre @ win \<Longrightarrow> win \<noteq> [] \<Longrightarrow> \<forall>x \<in> set win. in_hold_band c (snd x) \<Longrightarrow>
   now - fst (hd win) \<ge> 5000 \<Longrightarrow> has_window c now ts"
proof (induction pre arbitrary: ts)
  case Nil
  then show ?case by (cases win) (simp_all add: list_all_iff)
next
  case (Cons p pre)
  then show ?case by simp
qed

lemma run_ticks_invariant:
  assumes "\<not> boostActive s0" and "\<not> holdTimerActive s0"
  shows "\<not> boostActive (run_ticks c s0 ts) \<and> hold_timer_sound c ts (run_ticks c s0 ts)"
proof (induction ts rule: rev_induct)
  case Nil
  show ?case using assms by (simp add: hold_timer_sound_def)
next
  case (snoc x ts)
  let ?s = "run_ticks c s0 ts"
  let ?s' = "snd (burnengine_compute c (fst x) (snd x) ?s)"
  have b: "\<not> boostActive ?s" and inv: "hold_timer_sound c ts ?s"
    using snoc.IH by simp_all
  have j: "holdTimerActive ?s \<longrightarrow> burnState ?s = BURN_RAMP"
    using inv by (simp add: hold_timer_sound_def)
  have "hold_timer_sound c (ts @ [x]) ?s'"
    unfolding hold_timer_sound_def
  proof (intro impI)
    assume a: "holdTimerActive ?s'"
    from tick_timer [OF b j a]
    have r: "burnState ?s' = BURN_RAMP" "in_hold_band c (snd x)"
        "holdStartMs ?s' = (if holdTimerActive ?s then holdStartMs ?s else fst x)"
      by simp_all
    show "burnState ?s' = BURN_RAMP \<and>
        (\<exists>pre win. ts @ [x] = pre @ win \<and> win \<noteq> [] \<and>
           (\<forall>y \<in> set win. in_hold_band c (snd y)) \<and> fst (hd win) = holdStartMs ?s')"
    proof (cases "holdTimerActive ?s")
      case True
      then obtain pre win where w: "ts = pre @ win" "win \<noteq> []"
          "\<forall>y \<in> set win. in_hold_band c (snd y)" "fst (hd win) = holdStartMs ?s"
        using inv by (auto simp add: hold_timer_sound_def)
      have "ts @ [x] = pre @ (win @ [x])" using w by simp
      moreover have "win @ [x] \<noteq> []" by simp
      moreover have "\<forall>y \<in> set (win @ [x]). in_hold_band c (snd y)" using w r by simp
      moreover have "fst (hd (win @ [x])) = holdStartMs ?s'" using w r True by simp
      ultimately show ?thesis using r(1) by blast
    next
      case False
      have "ts @ [x] = ts @ [x]" by simp
      moreover have "[x] \<noteq> []" by simp
      moreover have "\<forall>y \<in> set [x]. in_hold_band c (snd y)" using r by simp
      moreover have "fst (hd [x]) = holdStartMs ?s'" using r False by simp
      ultimately show ?thesis using r(1) by blast
    qed
  qed
  then show ?case using tick_keeps_boost_closed [OF b] by (simp add: run_ticks_snoc)
qed

lemma hold_never_early:
  assumes "\<not> boostActive s0" and "\<not> holdTimerActive s0"
    and "burnState (run_ticks c s0 ts) \<noteq> BURN_HOLD"
    and "burnState (run_ticks c s0 (ts @ [(now, t)])) = BURN_HOLD"
  shows "has_window c now ts \<and> in_hold_band c t"
proof -
  let ?s = "run_ticks c s0 ts"
  have b: "\<not> boostActive ?s" and inv: "hold_timer_sound c ts ?s"
    using run_ticks_invariant [OF assms(1,2)] by simp_all
  have h: "burnState (snd (burnengine_compute c now t ?s)) = BURN_HOLD"
    using assms(4) by (simp add: run_ticks_snoc)
  from tick_hold_entry [OF b assms(3) h]
  have r: "in_hold_band c t" "holdTimerActive ?s" "now - holdStartMs ?s \<ge> 5000"
    by simp_all
  from inv r(2) obtain pre win where w: "ts = pre @ win" "win \<noteq> []"
      "\<forall>x \<in> set win. in_hold_band c (snd x)" "fst (hd win) = holdStartMs ?s"
    by (auto simp add: hold_timer_sound_def)
  have "now - fst (hd win) \<ge> 5000" using r(3) w(4) by simp
  then have "has_window c now ts"
    using has_window_suffix [OF w(1) w(2) w(3)] by simp
  with r(1) show ?thesis by simp
qed

lemma has_low_window_suffix:
  "ts = pre @ win \<Longrightarrow> win \<noteq> [] \<Longrightarrow> \<forall>x \<in> set win. below_flue_low c (snd x) \<Longrightarrow>
   now - fst (hd win) \<ge> (word_of_int (coalBedTimerMinutes c) :: millis) * 60 * 1000 \<Longrightarrow>
   has_low_window c now ts"
proof (induction pre arbitrary: ts)
  case Nil
  then show ?case by (cases win) (simp_all add: list_all_iff)
next
  case (Cons p pre)
  then show ?case by simp
qed

lemma tick_coalbed_timer:
  assumes "\<not> boostActive s"
    and "coalbedTimerActive (snd (burnengine_compute c now t s))"
  shows "below_flue_low c t
       \<and> coalbedStartMs (snd (burnengine_compute c now t s))
           = (if coalbedTimerActive s then coalbedStartMs s else now)"
proof (cases "burnState s = BURN_SAFETY")
  case True
  with assms show ?thesis by (simp add: burnengine_compute_def)
next
  case False
  have a: "coalbedTimerActive (coalbed_entry c now t s)"
    using assms False by (simp add: tick_past_overrides)
  have nf: "\<not> coalbed_fires c now t s"
    using a coalbed_entry_fired [of c now t s] by auto
  have b: "below_flue_low c t"
    using a by (auto simp add: coalbed_entry_not_fired [OF nf] below_flue_low_def
        split: if_splits)
  have "coalbedStartMs (coalbed_entry c now t s)
          = (if coalbedTimerActive s then coalbedStartMs s else now)"
    using b by (simp add: coalbed_entry_not_fired [OF nf] below_flue_low_def)
  then show ?thesis using b assms(1) False by (simp add: tick_past_overrides)
qed

lemma run_ticks_coalbed_invariant:
  assumes "\<not> boostActive s0" and "\<not> coalbedTimerActive s0"
  shows "\<not> boostActive (run_ticks c s0 ts) \<and> coalbed_timer_sound c ts (run_ticks c s0 ts)"
proof (induction ts rule: rev_induct)
  case Nil
  show ?case using assms by (simp add: coalbed_timer_sound_def)
next
  case (snoc x ts)
  let ?s = "run_ticks c s0 ts"
  let ?s' = "snd (burnengine_compute c (fst x) (snd x) ?s)"
  have b: "\<not> boostActive ?s" and inv: "coalbed_timer_sound c ts ?s"
    using snoc.IH by simp_all
  have "coalbed_timer_sound c (ts @ [x]) ?s'"
    unfolding coalbed_timer_sound_def
  proof (intro impI)
    assume a: "coalbedTimerActive ?s'"
    from tick_coalbed_timer [OF b a]
    have r: "below_flue_low c (snd x)"
        "coalbedStartMs ?s' = (if coalbedTimerActive ?s then coalbedStartMs ?s else fst x)"
      by simp_all
    show "\<exists>pre win. ts @ [x] = pre @ win \<and> win \<noteq> [] \<and>
           (\<forall>y \<in> set win. below_flue_low c (snd y)) \<and> fst (hd win) = coalbedStartMs ?s'"
    proof (cases "coalbedTimerActive ?s")
      case True
      then obtain pre win where w: "ts = pre @ win" "win \<noteq> []"
          "\<forall>y \<in> set win. below_flue_low c (snd y)" "fst (hd win) = coalbedStartMs ?s"
        using inv by (auto simp add: coalbed_timer_sound_def)
      have "ts @ [x] = pre @ (win @ [x])" using w by simp
      moreover have "win @ [x] \<noteq> []" by simp
      moreover have "\<forall>y \<in> set (win @ [x]). below_flue_low c (snd y)" using w r by simp
      moreover have "fst (hd (win @ [x])) = coalbedStartMs ?s'" using w r True by simp
      ultimately show ?thesis by blast
    next
      case False
      have "ts @ [x] = ts @ [x]" by simp
      moreover have "[x] \<noteq> []" by simp
      moreover have "\<forall>y \<in> set [x]. below_flue_low c (snd y)" using r by simp
      moreover have "fst (hd [x]) = coalbedStartMs ?s'" using r False by simp
      ultimately show ?thesis by blast
    qed
  qed
  then show ?case using tick_keeps_boost_closed [OF b] by (simp add: run_ticks_snoc)
qed

lemma coalbed_never_early:
  assumes "\<not> boostActive s0" and "\<not> coalbedTimerActive s0"
    and "coalbed_fires c now t (run_ticks c s0 ts)"
  shows "has_low_window c now (ts @ [(now, t)])"
proof -
  let ?s = "run_ticks c s0 ts"
  let ?req = "(word_of_int (coalBedTimerMinutes c) :: millis) * 60 * 1000"
  have inv: "coalbed_timer_sound c ts ?s"
    using run_ticks_coalbed_invariant [OF assms(1,2)] by simp
  have low: "below_flue_low c t"
    using assms(3) by (simp add: coalbed_fires_def below_flue_low_def)
  show ?thesis
  proof (cases "coalbedTimerActive ?s")
    case True
    then obtain pre win where w: "ts = pre @ win" "win \<noteq> []"
        "\<forall>x \<in> set win. below_flue_low c (snd x)" "fst (hd win) = coalbedStartMs ?s"
      using inv by (auto simp add: coalbed_timer_sound_def)
    have e: "now - fst (hd (win @ [(now, t)])) \<ge> ?req"
      using assms(3) True w by (simp add: coalbed_fires_def)
    have "ts @ [(now, t)] = pre @ (win @ [(now, t)])" using w by simp
    moreover have "win @ [(now, t)] \<noteq> []" by simp
    moreover have "\<forall>x \<in> set (win @ [(now, t)]). below_flue_low c (snd x)"
      using w low by simp
    ultimately show ?thesis using e by (rule has_low_window_suffix)
  next
    case False
    have e: "now - fst (hd [(now, t)]) \<ge> ?req"
      using assms(3) False by (simp add: coalbed_fires_def)
    have "ts @ [(now, t)] = ts @ [(now, t)]" by simp
    moreover have "[(now, t)] \<noteq> []" by simp
    moreover have "\<forall>x \<in> set [(now, t)]. below_flue_low c (snd x)" using low by simp
    ultimately show ?thesis using e by (rule has_low_window_suffix)
  qed
qed

text \<open>
  \<open>burnengine_startBoost\<close> opens a boost window without touching the stability timers
  (\<open>burnengine_init\<close> clears them). A HOLD timer started before a manual boost is therefore
  still running when the window closes: here it was started at 0 ms, the boost was
  requested at 100 ms, the temperature is below the band during the boost, and the tick
  on which the window closes goes straight to HOLD.
\<close>

lemma startBoost_keeps_timers:
  "holdTimerActive (burnengine_startBoost now s) = holdTimerActive s
   \<and> holdStartMs (burnengine_startBoost now s) = holdStartMs s
   \<and> coalbedTimerActive (burnengine_startBoost now s) = coalbedTimerActive s
   \<and> coalbedStartMs (burnengine_startBoost now s) = coalbedStartMs s"
  by (simp add: burnengine_startBoost_def)

lemma hold_timer_survives_manual_boost:
  "\<not> in_hold_band factory_defaults (Fin 300)
   \<and> burnState (run_ticks factory_defaults
        (burnengine_startBoost 100 (run_ticks factory_defaults ramp_fresh [(0, Fin 330)]))
        [(1000, Fin 300), (30100, Fin 330)]) = BURN_HOLD"
  by (simp add: in_hold_band_def factory_defaults_def ramp_fresh_def d_of_int_def
      burnengine_startBoost_def burnengine_compute_def coalbed_entry_def state_machine_def
      damper_control_def fan_demand_def hold_fan_curve_def constrain_def trunc_real_def
      HOLD_STABILITY_MS_def Let_def)

section \<open>The flue-recovery threshold is not read by the control path\<close>

lemma coalbed_entry_recovery [simp]:
  "coalbed_entry (c\<lparr>flueRecoveryThreshold := r\<rparr>) = coalbed_entry c"
  by (rule ext)+ (simp add: coalbed_entry_def Let_def)

lemma state_machine_recovery [simp]:
  "state_machine (c\<lparr>flueRecoveryThreshold := r\<rparr>) = state_machine c"
  by (rule ext)+ (simp add: state_machine_def Let_def cong: BurnState.case_cong)

lemma hold_fan_curve_recovery [simp]:
  "hold_fan_curve (c\<lparr>flueRecoveryThreshold := r\<rparr>) = hold_fan_curve c"
  by (rule ext)+ (simp add: hold_fan_curve_def Let_def cong: option.case_cong)

lemma fan_demand_recovery [simp]:
  "fan_demand (c\<lparr>flueRecoveryThreshold := r\<rparr>) = fan_demand c"
  by (rule ext)+ (simp add: fan_demand_def)

lemma burnengine_compute_recovery [simp]:
  "burnengine_compute (c\<lparr>flueRecoveryThreshold := r\<rparr>) = burnengine_compute c"
  by (rule ext)+ (simp add: burnengine_compute_def Let_def)

lemma fan_compute_recovery [simp]:
  "fan_compute (c\<lparr>flueRecoveryThreshold := r\<rparr>) = fan_compute c"
  by (rule ext)+ (simp add: fan_compute_def Let_def)

lemma run_ticks_recovery [simp]:
  "run_ticks (c\<lparr>flueRecoveryThreshold := r\<rparr>) s ts = run_ticks c s ts"
  by (induction ts arbitrary: s) simp_all

section \<open>Facts about the shaping layer and the HOLD curve\<close>

lemma handleStateChange_keeps:
  "phase = prevBurnState f \<or> (phase \<noteq> BURN_BOOST \<and> phase \<noteq> BURN_IDLE \<and> phase \<noteq> BURN_SAFETY) \<Longrightarrow>
   lastFan (fancontrol_handleStateChange phase f) = lastFan f
   \<and> fanOn (fancontrol_handleStateChange phase f) = fanOn f"
  by (auto simp add: fancontrol_handleStateChange_def)

lemma fan_compute_shaped:
  assumes "phase \<noteq> BURN_BOOST" and "phase \<noteq> BURN_SAFETY"
  shows "fan_compute c phase demand f =
     (let f1 = fancontrol_handleStateChange phase f;
          sm = c_div (lastFan f1 * 3 + demand) 4;
          cl = min sm (clampMaxPercent c)
      in if deadzoneFanMode c = 1 then (max cl (clampMinPercent c), f1\<lparr>lastFan := sm\<rparr>)
         else if (if fanOn f1 then \<not> cl < clampMinPercent c else cl > clampMinPercent c + 10)
         then (cl, f1\<lparr>lastFan := sm, fanOn := True\<rparr>)
         else (0, f1\<lparr>lastFan := sm, fanOn := False\<rparr>))"
  using assms by (auto simp add: fan_compute_def Let_def min_def max_def)

lemma trunc_real_of_int [simp]: "trunc_real (of_int i) = i"
  by (simp add: trunc_real_def)

lemma trunc_real_nonneg: "0 \<le> x \<Longrightarrow> trunc_real x = \<lfloor>x\<rfloor>"
  by (simp add: trunc_real_def)

lemma floor_min_int:
  "\<lfloor>min (x :: real) (of_int b)\<rfloor> = min \<lfloor>x\<rfloor> b"
proof (cases "x \<le> of_int b")
  case True
  have "\<lfloor>x\<rfloor> \<le> b" using floor_mono [OF True] by simp
  then show ?thesis using True by (simp add: min_def)
next
  case False
  then have "b \<le> \<lfloor>x\<rfloor>" by (simp add: le_floor_iff)
  then show ?thesis using False by (simp add: min_def)
qed

lemma floor_max_int:
  "\<lfloor>max (of_int a) (x :: real)\<rfloor> = max a \<lfloor>x\<rfloor>"
proof (cases "of_int a \<le> x")
  case True
  then have "a \<le> \<lfloor>x\<rfloor>" by (simp add: le_floor_iff)
  then show ?thesis using True by (simp add: max_def)
next
  case False
  then have "x \<le> of_int a" by simp
  from floor_mono [OF this] have "\<lfloor>x\<rfloor> \<le> a" by simp
  then show ?thesis using False by (simp add: max_def)
qed

lemma floor_clamp_into:
  "\<lfloor>clamp_into (of_int a) (of_int b) (x :: real)\<rfloor> = clamp_into a b \<lfloor>x\<rfloor>"
  unfolding clamp_into_def
  by (simp only: floor_max_int floor_min_int min.commute [of "of_int b"] min.commute [of b])

lemma constrain_clamp_into:
  "low \<le> high \<Longrightarrow> constrain amt low high = clamp_into low high amt"
  by (simp add: constrain_def clamp_into_def min_def max_def)

lemma d2i_floor:
  assumes "0 \<le> y" and "y < 2 ^ 31"
  shows "d2i (Fin y) = Some \<lfloor>y\<rfloor>"
proof -
  have "0 \<le> \<lfloor>y\<rfloor>" using assms(1) by (simp only: zero_le_floor)
  moreover have "\<lfloor>y\<rfloor> < 2 ^ 31" using assms(2) by (simp add: floor_less_iff)
  ultimately show ?thesis using assms(1) by (simp add: trunc_real_nonneg)
qed

lemma capped_demand:
  assumes "0 \<le> y" and "y < 2 ^ 31" and "0 \<le> lo" and "lo \<le> hi"
  shows "(case d2i (Fin y) of None \<Rightarrow> None
          | Some fan \<Rightarrow> Some (constrain (if b then min fan 80 else fan) lo hi))
         = Some (trunc_real (clamp_into (real_of_int lo) (real_of_int hi)
                   (if b then min y 80 else y)))"
proof (cases b)
  case True
  have n: "0 \<le> clamp_into (real_of_int lo) (real_of_int hi) (min y 80)"
    using assms(3) by (simp add: clamp_into_def max_def)
  have "\<lfloor>clamp_into (real_of_int lo) (real_of_int hi) (min y (of_int 80))\<rfloor>
          = clamp_into lo hi (min \<lfloor>y\<rfloor> 80)"
    by (simp only: floor_clamp_into floor_min_int)
  then have "\<lfloor>clamp_into (real_of_int lo) (real_of_int hi) (min y 80)\<rfloor>
          = clamp_into lo hi (min \<lfloor>y\<rfloor> 80)"
    by simp
  then show ?thesis
    using assms n True
    by (simp add: d2i_floor constrain_clamp_into trunc_real_nonneg del: d2i.simps)
next
  case False
  have n: "0 \<le> clamp_into (real_of_int lo) (real_of_int hi) y"
    using assms(3) by (simp add: clamp_into_def max_def)
  have "\<lfloor>clamp_into (real_of_int lo) (real_of_int hi) y\<rfloor> = clamp_into lo hi \<lfloor>y\<rfloor>"
    by (simp only: floor_clamp_into)
  then show ?thesis
    using assms n False
    by (simp add: d2i_floor constrain_clamp_into trunc_real_nonneg del: d2i.simps)
qed

lemma hold_phase_demand:
  assumes "burnState (snd (burnengine_compute c now t s)) = BURN_HOLD"
  shows "fst (burnengine_compute c now t s) = hold_fan_curve c t"
proof -
  let ?s1 = "if boostActive s then s\<lparr>boostActive := False, burnState := BURN_RAMP\<rparr> else s"
  let ?s4 = "damper_control (state_machine c now t (coalbed_entry c now t ?s1))"
  have ns: "burnState s \<noteq> BURN_SAFETY"
    using assms by (auto simp add: burnengine_compute_def)
  have nb: "\<not> (boostActive s \<and>
      now - boostStartMs s < (word_of_int (boostTimeSeconds c) :: millis) * 1000)"
    using assms ns by (auto simp add: burnengine_compute_def)
  have r: "burnengine_compute c now t s = (fan_demand c t ?s4, ?s4)"
    using ns nb unfolding burnengine_compute_def Let_def by (simp only: if_False)
  have "burnState ?s4 = BURN_HOLD" using assms unfolding r by simp
  then have "fan_demand c t ?s4 = hold_fan_curve c t"
    unfolding fan_demand_def by simp
  then show ?thesis unfolding r by simp
qed

lemma hold_fan_curve_value:
  assumes "0 \<le> clampMinPercent c" and "clampMinPercent c \<le> clampMaxPercent c"
    and "clampMaxPercent c \<le> 100"
    and "real_of_int (exhaustSetpoint c) - x < 2 ^ 30"
  shows "hold_fan_curve c (Fin x)
           = Some (trunc_real (hold_curve_spec c (real_of_int (exhaustSetpoint c) - x)))"
proof -
  let ?e = "real_of_int (exhaustSetpoint c) - x"
  consider (z1) "?e \<le> 5" | (z2) "5 < ?e" "?e \<le> 25" | (z3) "25 < ?e" by linarith
  then show ?thesis
  proof cases
    case z1
    then show ?thesis
      by (simp add: hold_fan_curve_def hold_curve_spec_def d_of_int_def)
  next
    case z2
    have "0 \<le> real_of_int (clampMinPercent c) + (?e - 5) * 2"
      and "real_of_int (clampMinPercent c) + (?e - 5) * 2 < 2 ^ 31"
      using z2 assms by simp_all
    from capped_demand [OF this assms(1,2), of True] z2
    show ?thesis
      by (simp add: hold_fan_curve_def hold_curve_spec_def d_of_int_def del: d2i.simps
          cong: option.case_cong)
  next
    case z3
    have lo: "clampMinPercent c \<le> 100" using assms by simp
    have "0 \<le> 50 + (?e - 25) * 2" and "50 + (?e - 25) * 2 < 2 ^ 31"
      using z3 assms(4) by simp_all
    from capped_demand [OF this assms(1) lo, of "?e \<le> 40"] z3
    show ?thesis
      by (simp add: hold_fan_curve_def hold_curve_spec_def d_of_int_def del: d2i.simps
          cong: option.case_cong)
  qed
qed

section \<open>Facts about the parameter store\<close>

lemmas repair_defs =
  repair_setpoint_def repair_boostTime_def repair_deadband_def repair_clampMin_def
  repair_clampMax_def repair_clampOrder_def repair_deadzone_def repair_coalBedTimer_def
  repair_flueLow_def repair_flueRecovery_def repair_flueGap_def

lemma to_int16_id: "- 32768 \<le> v \<Longrightarrow> v < 32768 \<Longrightarrow> to_int16 v = v"
  by (simp add: to_int16_def)

lemma flue_repairs:
  assumes "0 \<le> flueLowThreshold c" and "flueLowThreshold c \<le> 900"
  shows "repair_flueGap (repair_flueRecovery c)
           = c\<lparr>flueRecoveryThreshold :=
                 (if flueRecoveryThreshold c < 0 \<or> flueRecoveryThreshold c > 900
                     \<or> flueRecoveryThreshold c < flueLowThreshold c + 10
                  then flueLowThreshold c + 50 else flueRecoveryThreshold c)\<rparr>"
proof -
  have t: "to_int16 (flueLowThreshold c + 50) = flueLowThreshold c + 50"
    using assms by (simp add: to_int16_id)
  show ?thesis
    by (simp add: repair_flueGap_def repair_flueRecovery_def t)
qed

text \<open>The parameters after \<open>validateSettings\<close>, one by one.\<close>

lemma validateSettings_fields:
  "exhaustSetpoint (validateSettings c)
     = (if exhaustSetpoint c < 100 \<or> exhaustSetpoint c > 900 then 350 else exhaustSetpoint c)"
  "boostTimeSeconds (validateSettings c)
     = (if boostTimeSeconds c < 0 \<or> boostTimeSeconds c > 1800 then 30 else boostTimeSeconds c)"
  "deadbandF (validateSettings c)
     = (if deadbandF c < 0 \<or> deadbandF c > 200 then 25 else deadbandF c)"
  "clampMaxPercent (validateSettings c)
     = (if clampMaxPercent c < 0 \<or> clampMaxPercent c > 100 then 100 else clampMaxPercent c)"
  "clampMinPercent (validateSettings c)
     = min (if clampMinPercent c < 0 \<or> clampMinPercent c > 100 then 10 else clampMinPercent c)
           (if clampMaxPercent c < 0 \<or> clampMaxPercent c > 100 then 100 else clampMaxPercent c)"
  "deadzoneFanMode (validateSettings c)
     = (if deadzoneFanMode c \<noteq> 0 \<and> deadzoneFanMode c \<noteq> 1 then 0 else deadzoneFanMode c)"
  "coalBedTimerMinutes (validateSettings c)
     = (if coalBedTimerMinutes c < 0 \<or> coalBedTimerMinutes c > 720 then 30
        else coalBedTimerMinutes c)"
  "flueLowThreshold (validateSettings c)
     = (if flueLowThreshold c < 0 \<or> flueLowThreshold c > 900 then 250 else flueLowThreshold c)"
  by (simp_all add: validateSettings_def repair_defs min_def)

lemma validateSettings_flueRecovery:
  "flueRecoveryThreshold (validateSettings c)
     = (if flueRecoveryThreshold c < 0 \<or> flueRecoveryThreshold c > 900
           \<or> flueRecoveryThreshold c < flueLowThreshold (validateSettings c) + 10
        then flueLowThreshold (validateSettings c) + 50 else flueRecoveryThreshold c)"
proof -
  let ?p = "repair_coalBedTimer (repair_deadzone (repair_clampOrder (repair_clampMax
      (repair_clampMin (repair_deadband (repair_boostTime (repair_setpoint c)))))))"
  let ?q = "repair_flueLow ?p"
  have v: "validateSettings c = repair_flueGap (repair_flueRecovery ?q)"
    by (simp only: validateSettings_def)
  have p: "flueRecoveryThreshold ?p = flueRecoveryThreshold c"
    by (simp add: repair_defs)
  have q: "flueRecoveryThreshold ?q = flueRecoveryThreshold c"
    "flueLowThreshold ?q = flueLowThreshold (validateSettings c)"
    by (simp_all add: validateSettings_fields(8) repair_defs)
  have r: "0 \<le> flueLowThreshold ?q" "flueLowThreshold ?q \<le> 900"
    unfolding q(2) by (simp_all add: validateSettings_fields(8))
  have a: "flueRecoveryThreshold (validateSettings c)
      = flueRecoveryThreshold (repair_flueGap (repair_flueRecovery ?q))"
    by (simp only: v)
  have b: "flueRecoveryThreshold (repair_flueGap (repair_flueRecovery ?q))
      = (if flueRecoveryThreshold ?q < 0 \<or> flueRecoveryThreshold ?q > 900
            \<or> flueRecoveryThreshold ?q < flueLowThreshold ?q + 10
         then flueLowThreshold ?q + 50 else flueRecoveryThreshold ?q)"
    by (simp only: flue_repairs [OF r]) simp
  show ?thesis by (simp only: a b q)
qed

lemma validateSettings_clamp:
  "0 \<le> clampMinPercent (validateSettings c)
   \<and> clampMinPercent (validateSettings c) \<le> clampMaxPercent (validateSettings c)
   \<and> clampMaxPercent (validateSettings c) \<le> 100"
  by (simp add: validateSettings_fields(4,5))

lemma validateSettings_flue:
  "0 \<le> flueLowThreshold (validateSettings c)
   \<and> flueLowThreshold (validateSettings c) \<le> 900
   \<and> flueLowThreshold (validateSettings c) + 10 \<le> flueRecoveryThreshold (validateSettings c)
   \<and> (flueRecoveryThreshold (validateSettings c) \<le> 900
      \<or> flueRecoveryThreshold (validateSettings c) = flueLowThreshold (validateSettings c) + 50)"
proof -
  have l: "0 \<le> flueLowThreshold (validateSettings c)"
      "flueLowThreshold (validateSettings c) \<le> 900"
    by (simp_all add: validateSettings_fields(8))
  show ?thesis
    using l by (simp add: validateSettings_flueRecovery)
qed

lemma validateSettings_consistent: "settings_consistent (validateSettings c)"
  unfolding settings_consistent_def
  using validateSettings_clamp [of c] validateSettings_flue [of c] by simp

lemma validateSettings_valid: "settings_valid (validateSettings c)"
proof -
  have "100 \<le> exhaustSetpoint (validateSettings c) \<and> exhaustSetpoint (validateSettings c) \<le> 900"
    by (simp add: validateSettings_fields(1))
  moreover have "0 \<le> boostTimeSeconds (validateSettings c)
      \<and> boostTimeSeconds (validateSettings c) \<le> 1800"
    by (simp add: validateSettings_fields(2))
  moreover have "0 \<le> deadbandF (validateSettings c) \<and> deadbandF (validateSettings c) \<le> 200"
    by (simp add: validateSettings_fields(3))
  moreover have "deadzoneFanMode (validateSettings c) = 0
      \<or> deadzoneFanMode (validateSettings c) = 1"
    by (simp add: validateSettings_fields(6))
  moreover have "0 \<le> coalBedTimerMinutes (validateSettings c)
      \<and> coalBedTimerMinutes (validateSettings c) \<le> 720"
    by (simp add: validateSettings_fields(7))
  ultimately show ?thesis
    unfolding settings_valid_def
    using validateSettings_clamp [of c] validateSettings_flue [of c] by blast
qed

lemma ui_commit_validated:
  "st \<noteq> UI_HOME \<Longrightarrow> st \<noteq> UI_SYSTEM \<Longrightarrow> \<exists>c'. ui_commit st v c = validateSettings c'"
  by (cases st)
     (auto simp add: Let_def eeprom_saveSetpoint_def eeprom_saveBoostTime_def
        eeprom_saveDeadband_def eeprom_saveClampMin_def eeprom_saveClampMax_def
        eeprom_saveDeadzone_def eeprom_saveCoalBedTimer_def eeprom_saveFlueLow_def
        eeprom_saveFlueRecovery_def)

lemma ui_commit_valid:
  assumes "settings_valid c"
  shows "settings_valid (ui_commit st v c)"
proof (cases "st = UI_HOME \<or> st = UI_SYSTEM")
  case True
  then show ?thesis using assms by auto
next
  case False
  then obtain c' where "ui_commit st v c = validateSettings c'"
    using ui_commit_validated [of st v c] by auto
  then show ?thesis by (simp add: validateSettings_valid)
qed

lemma ui_commits_valid:
  "settings_valid c \<Longrightarrow> settings_valid (ui_commits c es)"
  by (induction es arbitrary: c) (simp_all add: ui_commit_valid)

lemma eeprom_init_valid: "settings_valid (eeprom_init ver stored)"
  by (simp add: eeprom_init_def eeprom_saveAll_def validateSettings_valid)

lemma settings_valid_consistent: "settings_valid c \<Longrightarrow> settings_consistent c"
  by (simp add: settings_valid_def settings_consistent_def)

lemma clamp_edit_value: "(if (if v < lo then lo else v) > hi then hi else (if v < lo then lo else v))
    = (if lo \<le> hi then clamp_into lo hi v else hi)" for v :: int
  by (simp add: clamp_into_def min_def max_def)

lemma clamp_max_edit:
  assumes "settings_valid c"
  shows "clampMaxPercent (ui_commit UI_CLAMP_MAX v c) = clamp_into 0 100 v
       \<and> clampMinPercent (ui_commit UI_CLAMP_MAX v c)
           = min (clampMinPercent c) (clamp_into 0 100 v)"
proof -
  let ?a = "clamp_into 0 100 v"
  have a: "0 \<le> ?a" "?a \<le> 100" by (simp_all add: clamp_into_def)
  have t: "to_int16 ?a = ?a" using a by (simp add: to_int16_id)
  have e: "ui_commit UI_CLAMP_MAX v c = validateSettings (c\<lparr>clampMaxPercent := ?a\<rparr>)"
    by (simp add: eeprom_saveClampMax_def Let_def clamp_edit_value t)
  have m: "0 \<le> clampMinPercent c" "clampMinPercent c \<le> 100"
    using assms by (simp_all add: settings_valid_def)
  show ?thesis
    unfolding e using a m by (simp add: validateSettings_fields(4,5))
qed

lemma clamp_min_edit:
  assumes "settings_valid c"
  shows "clampMaxPercent (ui_commit UI_CLAMP_MIN v c) = clampMaxPercent c
       \<and> clampMinPercent (ui_commit UI_CLAMP_MIN v c)
           = min (clamp_into 0 100 v) (clampMaxPercent c)"
proof -
  let ?a = "clamp_into 0 100 v"
  have a: "0 \<le> ?a" "?a \<le> 100" by (simp_all add: clamp_into_def)
  have t: "to_int16 ?a = ?a" using a by (simp add: to_int16_id)
  have e: "ui_commit UI_CLAMP_MIN v c = validateSettings (c\<lparr>clampMinPercent := ?a\<rparr>)"
    by (simp add: eeprom_saveClampMin_def Let_def clamp_edit_value t)
  have m: "0 \<le> clampMaxPercent c" "clampMaxPercent c \<le> 100"
    using assms by (simp_all add: settings_valid_def)
  show ?thesis
    unfolding e using a m by (simp add: validateSettings_fields(4,5))
qed

lemma flue_low_edit:
  assumes "settings_valid c"
  shows "flueLowThreshold (ui_commit UI_FLUE_LOW v c) = clamp_into 200 500 v
       \<and> flueRecoveryThreshold (ui_commit UI_FLUE_LOW v c)
           = (if flueRecoveryThreshold c > 900
                 \<or> flueRecoveryThreshold c < clamp_into 200 500 v + 10
              then clamp_into 200 500 v + 50 else flueRecoveryThreshold c)"
proof -
  let ?a = "clamp_into 200 500 v"
  have a: "200 \<le> ?a" "?a \<le> 500" by (simp_all add: clamp_into_def)
  have t: "to_int16 ?a = ?a" using a by (simp add: to_int16_id)
  have e: "ui_commit UI_FLUE_LOW v c = validateSettings (c\<lparr>flueLowThreshold := ?a\<rparr>)"
    by (simp add: eeprom_saveFlueLow_def Let_def clamp_edit_value t)
  have l: "flueLowThreshold (validateSettings (c\<lparr>flueLowThreshold := ?a\<rparr>)) = ?a"
    using a by (simp add: validateSettings_fields(8))
  have r: "0 \<le> flueRecoveryThreshold c"
    using assms by (simp add: settings_valid_def)
  show ?thesis
    unfolding e using r by (simp add: validateSettings_flueRecovery l)
qed

lemma flue_rec_edit:
  assumes "settings_valid c"
  shows "flueLowThreshold (ui_commit UI_FLUE_REC v c) = flueLowThreshold c
       \<and> flueRecoveryThreshold (ui_commit UI_FLUE_REC v c)
           = (if flueLowThreshold c + 10 > 600 then flueLowThreshold c + 50
              else clamp_into (flueLowThreshold c + 10) 600 v)"
proof -
  let ?lo = "flueLowThreshold c + 10"
  let ?a = "if ?lo \<le> 600 then clamp_into ?lo 600 v else 600"
  have b: "0 \<le> flueLowThreshold c" "flueLowThreshold c \<le> 900"
    using assms by (simp_all add: settings_valid_def)
  have a: "0 \<le> ?a" "?a \<le> 600"
    using b by (simp_all add: clamp_into_def max_def min_def)
  have t: "to_int16 ?a = ?a" using a by (simp add: to_int16_id)
  have e: "ui_commit UI_FLUE_REC v c = validateSettings (c\<lparr>flueRecoveryThreshold := ?a\<rparr>)"
    by (simp only: ui_commit.simps Let_def clamp_edit_value eeprom_saveFlueRecovery_def t) simp
  have l: "flueLowThreshold (validateSettings (c\<lparr>flueRecoveryThreshold := r\<rparr>))
             = flueLowThreshold c" for r
    using b by (simp add: validateSettings_fields(8))
  have g: "?lo \<le> 600 \<Longrightarrow> ?lo \<le> clamp_into ?lo 600 v \<and> clamp_into ?lo 600 v \<le> 600"
    by (simp add: clamp_into_def max_def min_def)
  show ?thesis
  proof (cases "?lo \<le> 600")
    case True
    with g have "?lo \<le> clamp_into ?lo 600 v" "clamp_into ?lo 600 v \<le> 600" by simp_all
    then show ?thesis
      unfolding e using True b by (simp add: validateSettings_flueRecovery l)
  next
    case False
    then show ?thesis
      unfolding e using b by (simp add: validateSettings_flueRecovery l)
  qed
qed

section \<open>Facts about the sensor cache\<close>

lemma readMAX31855_F_nan:
  "d_isnan (readMAX31855_F bs) \<longleftrightarrow> fault_bit bs \<or> tempF bs < - 100 \<or> tempF bs > 2000"
  by (simp add: readMAX31855_F_def)

lemma readMAX31855_F_fin:
  "\<not> d_isnan (readMAX31855_F bs) \<Longrightarrow> readMAX31855_F bs = Fin (tempF bs)"
  by (simp add: readMAX31855_F_def split: if_splits)

lemma read_rejected:
  assumes "now - lastTCRead s \<ge> 500" and "sample_rejected (lastTCValueF s) bs"
  shows "exhaust_readF_cached now bs s = (lastTCValueF s, s\<lparr>lastTCRead := now\<rparr>)"
proof (cases "d_isnan (readMAX31855_F bs)")
  case True
  then show ?thesis using assms(1) by (simp add: exhaust_readF_cached_def Let_def)
next
  case False
  then have f: "readMAX31855_F bs = Fin (tempF bs)" by (rule readMAX31855_F_fin)
  from False have "\<not> (fault_bit bs \<or> tempF bs < - 100 \<or> tempF bs > 2000)"
    by (simp add: readMAX31855_F_nan)
  with assms(2) obtain v where v: "lastTCValueF s = Fin v" "\<bar>tempF bs - v\<bar> > 150"
    by (cases "lastTCValueF s") (auto simp add: sample_rejected_def)
  show ?thesis using assms(1) v by (simp add: exhaust_readF_cached_def f Let_def)
qed

lemma read_accepted:
  assumes "now - lastTCRead s \<ge> 500" and "\<not> sample_rejected (lastTCValueF s) bs"
  shows "exhaust_readF_cached now bs s
           = (Fin (tempF bs), s\<lparr>lastTCRead := now, lastTCValueF := Fin (tempF bs)\<rparr>)"
proof -
  have n: "\<not> d_isnan (readMAX31855_F bs)"
    using assms(2) by (auto simp add: readMAX31855_F_nan sample_rejected_def)
  then have f: "readMAX31855_F bs = Fin (tempF bs)" by (rule readMAX31855_F_fin)
  show ?thesis
    using assms by (cases "lastTCValueF s")
      (auto simp add: exhaust_readF_cached_def f sample_rejected_def Let_def)
qed

lemma read_within_cadence:
  "\<not> now - lastTCRead s \<ge> 500 \<Longrightarrow> exhaust_readF_cached now bs s = (lastTCValueF s, s)"
  by (simp add: exhaust_readF_cached_def)

lemma read_keeps_plausible:
  assumes "cache_plausible (lastTCValueF s)"
  shows "cache_plausible (lastTCValueF (snd (exhaust_readF_cached now bs s)))"
proof (cases "now - lastTCRead s \<ge> 500")
  case False
  then show ?thesis using assms by (simp add: read_within_cadence)
next
  case True
  show ?thesis
  proof (cases "sample_rejected (lastTCValueF s) bs")
    case r: True
    show ?thesis using assms by (simp add: read_rejected [OF True r])
  next
    case a: False
    then have "- 100 \<le> tempF bs \<and> tempF bs \<le> 2000"
      by (auto simp add: sample_rejected_def)
    then show ?thesis by (simp add: read_accepted [OF True a] cache_plausible_def)
  qed
qed

lemma read_run_plausible:
  "cache_plausible (lastTCValueF s) \<Longrightarrow> cache_plausible (lastTCValueF (read_run s rs))"
  by (induction rs arbitrary: s) (simp_all add: read_keeps_plausible)

text \<open>Some frames: 100, 1200, -100 and 200 degrees C, and a frame with the fault bit.\<close>

lemma frame_values:
  "tempF (0x06, 0x40, 0, 0) = 212" "\<not> fault_bit (0x06, 0x40, 0, 0)"
  "tempF (0x4B, 0, 0, 0) = 2192" "\<not> fault_bit (0x4B, 0, 0, 0)"
  "tempF (0xF9, 0xC0, 0, 0) = - 148" "\<not> fault_bit (0xF9, 0xC0, 0, 0)"
  "tempF (0x0C, 0x80, 0, 0) = 392" "\<not> fault_bit (0x0C, 0x80, 0, 0)"
  "fault_bit (0x06, 0x41, 0, 0)"
  by (simp_all add: tempF_def tcData_def spi_raw_def fault_bit_def Let_def)

section \<open>The claims\<close>

text \<open>
  C1. On every control tick that begins in phase SAFETY, \<open>burnengine_compute\<close> leaves the
  boost window and the coal-bed, HOLD and RAMP timers inactive, writes the damper relay
  HIGH (closed) and returns a raw demand of 0, and the phase is still SAFETY; \<open>fan_compute\<close>
  on that phase returns 0 for any demand and leaves its memory cleared (\<open>lastFan = 0\<close>, fan
  off). Nothing is assumed about the timers, the boost window, the temperature, the
  demand or the shaping memory before the tick.
\<close>

theorem safety_tick_forces_off:
  assumes "burnState s = BURN_SAFETY"
  shows "fst (burnengine_compute c now smoothExh s) = Some 0
       \<and> burnState (snd (burnengine_compute c now smoothExh s)) = BURN_SAFETY
       \<and> \<not> boostActive (snd (burnengine_compute c now smoothExh s))
       \<and> \<not> coalbedTimerActive (snd (burnengine_compute c now smoothExh s))
       \<and> \<not> holdTimerActive (snd (burnengine_compute c now smoothExh s))
       \<and> \<not> rampTimerActive (snd (burnengine_compute c now smoothExh s))
       \<and> damper (snd (burnengine_compute c now smoothExh s)) = HIGH
       \<and> fst (fan_compute c BURN_SAFETY demand f) = 0
       \<and> lastFan (snd (fan_compute c BURN_SAFETY demand f)) = 0
       \<and> \<not> fanOn (snd (fan_compute c BURN_SAFETY demand f))
       \<and> control_tick c now smoothExh (s, f)
           = Some (0, 0, snd (burnengine_compute c now smoothExh s),
                   snd (fan_compute c BURN_SAFETY 0 f))"
  using assms
  by (simp add: burnengine_compute_def fan_compute_def control_tick_def Let_def)

theorem safety_tick_forces_off_witness:
  "fst (burnengine_compute factory_defaults 1000 (Fin 600)
          (ramp_fresh\<lparr>burnState := BURN_SAFETY, boostActive := True,
             holdTimerActive := True\<rparr>)) = Some 0
   \<and> damper (snd (burnengine_compute factory_defaults 1000 (Fin 600)
          (ramp_fresh\<lparr>burnState := BURN_SAFETY, boostActive := True,
             holdTimerActive := True\<rparr>))) = HIGH
   \<and> fst (fan_compute factory_defaults BURN_SAFETY 100
          \<lparr>lastFan = 100, fanOn = True, prevBurnState = BURN_BOOST\<rparr>) = 0"
  using safety_tick_forces_off [of "ramp_fresh\<lparr>burnState := BURN_SAFETY, boostActive := True,
      holdTimerActive := True\<rparr>" factory_defaults 1000 "Fin 600" 100
      "\<lparr>lastFan = 100, fanOn = True, prevBurnState = BURN_BOOST\<rparr>"]
  by (simp add: ramp_fresh_def)

text \<open>
  C10. Two runs of a control tick that differ only in the value of
  \<open>flueRecoveryThreshold\<close> give the same result: the same raw demand, the same final fan
  percentage, the same engine globals (phase, timers, damper level) and the same shaping
  memory, and the same outcome where the C behaviour is undefined. The same holds for a
  whole run of engine ticks.
\<close>

theorem flue_recovery_has_no_effect:
  "control_tick (c\<lparr>flueRecoveryThreshold := r\<rparr>) now smoothExh st
     = control_tick c now smoothExh st
   \<and> burnengine_compute (c\<lparr>flueRecoveryThreshold := r\<rparr>) now smoothExh s
     = burnengine_compute c now smoothExh s
   \<and> fan_compute (c\<lparr>flueRecoveryThreshold := r\<rparr>) phase demand f
     = fan_compute c phase demand f
   \<and> run_ticks (c\<lparr>flueRecoveryThreshold := r\<rparr>) s ts = run_ticks c s ts"
  by (simp add: control_tick_def split: prod.split option.split)

text \<open>
  C3, as stated, fails: the phase does not become HOLD exactly when the temperature has
  been in the band for 5000 ms. With setpoint 200, deadband 25 (band from 175), flue-low
  threshold 250 and a 5-minute coal-bed timer, start in RAMP with no timer running. The
  tick at 1000 ms reads 100 (below both thresholds: the coal-bed timer starts), the ticks
  at 296000 ms and 301000 ms read 180, in the band. At 301000 ms the temperature has been
  in the band for 5000 ms, but the coal-bed entry fires on that tick (300000 ms below 250),
  clears the HOLD timer and sets COALBED, which the COALBED case leaves at once for RAMP:
  the phase is RAMP, not HOLD.
\<close>

theorem hold_delayed_by_coalbed_entry:
  "burnState ramp_fresh = BURN_RAMP
   \<and> in_hold_band (factory_defaults\<lparr>exhaustSetpoint := 200, coalBedTimerMinutes := 5\<rparr>)
        (Fin 180)
   \<and> (301000 :: millis) - 296000 \<ge> 5000
   \<and> burnState (run_ticks (factory_defaults\<lparr>exhaustSetpoint := 200, coalBedTimerMinutes := 5\<rparr>)
        ramp_fresh [(1000, Fin 100), (296000, Fin 180)]) = BURN_RAMP
   \<and> burnState (run_ticks (factory_defaults\<lparr>exhaustSetpoint := 200, coalBedTimerMinutes := 5\<rparr>)
        ramp_fresh [(1000, Fin 100), (296000, Fin 180), (301000, Fin 180)]) = BURN_RAMP"
  by (simp add: in_hold_band_def factory_defaults_def ramp_fresh_def d_of_int_def
      burnengine_compute_def coalbed_entry_def state_machine_def damper_control_def
      fan_demand_def HOLD_STABILITY_MS_def Let_def)

text \<open>
  C3, amended. On a tick that begins in phase RAMP with the boost window closed, the
  phase becomes HOLD exactly when the smoothed temperature is at or above
  setpoint - deadband on this tick, the HOLD timer is already running with at least
  5000 ms elapsed since its start (the 32-bit difference of the clock values), and the
  coal-bed entry does not fire on this tick. A tick whose temperature is not in the band
  (below it, or not a number) leaves the timer inactive. An in-band tick on which neither
  the HOLD timer nor the coal-bed entry fires leaves the phase RAMP and the timer running
  from its earlier start, or from now when it was not running. Over any run of ticks that
  starts with the boost window closed and the HOLD timer inactive, a tick that moves the
  phase to HOLD closes an unbroken stretch of in-band ticks whose first tick lies at least
  5000 ms back: the transition never comes earlier.
\<close>

theorem ramp_to_hold_stability:
  "(burnState s = BURN_RAMP \<and> \<not> boostActive s \<longrightarrow>
      (burnState (snd (burnengine_compute c now t s)) = BURN_HOLD \<longleftrightarrow>
         in_hold_band c t \<and> holdTimerActive s \<and> now - holdStartMs s \<ge> 5000
         \<and> \<not> coalbed_fires c now t s)
    \<and> (\<not> in_hold_band c t \<longrightarrow>
         \<not> holdTimerActive (snd (burnengine_compute c now t s)))
    \<and> (in_hold_band c t \<and> \<not> coalbed_fires c now t s
         \<and> \<not> (holdTimerActive s \<and> now - holdStartMs s \<ge> 5000) \<longrightarrow>
         burnState (snd (burnengine_compute c now t s)) = BURN_RAMP
         \<and> holdTimerActive (snd (burnengine_compute c now t s))
         \<and> holdStartMs (snd (burnengine_compute c now t s))
             = (if holdTimerActive s then holdStartMs s else now)))
   \<and> (\<not> boostActive s0 \<and> \<not> holdTimerActive s0
        \<and> burnState (run_ticks c s0 ts) \<noteq> BURN_HOLD
        \<and> burnState (run_ticks c s0 (ts @ [(now, t)])) = BURN_HOLD \<longrightarrow>
        has_window c now ts \<and> in_hold_band c t)"
  using ramp_to_hold_tick [of s c now t] hold_never_early [of s0 c ts now t]
  by blast

theorem ramp_to_hold_stability_witness:
  "burnState (ramp_fresh\<lparr>holdTimerActive := True\<rparr>) = BURN_RAMP
   \<and> \<not> boostActive (ramp_fresh\<lparr>holdTimerActive := True\<rparr>)
   \<and> in_hold_band factory_defaults (Fin 330)
   \<and> burnState (snd (burnengine_compute factory_defaults 5000 (Fin 330)
        (ramp_fresh\<lparr>holdTimerActive := True\<rparr>))) = BURN_HOLD
   \<and> \<not> holdTimerActive ramp_fresh
   \<and> burnState (run_ticks factory_defaults ramp_fresh [(0, Fin 330)]) = BURN_RAMP
   \<and> burnState (run_ticks factory_defaults ramp_fresh [(0, Fin 330), (5000, Fin 330)])
       = BURN_HOLD
   \<and> has_window factory_defaults 5000 [(0, Fin 330)]"
  using ramp_to_hold_stability [of "ramp_fresh\<lparr>holdTimerActive := True\<rparr>" factory_defaults
      5000 "Fin 330" ramp_fresh "[(0, Fin 330)]"]
  by (simp add: in_hold_band_def factory_defaults_def ramp_fresh_def d_of_int_def
      burnengine_compute_def coalbed_entry_def state_machine_def damper_control_def
      fan_demand_def coalbed_fires_def HOLD_STABILITY_MS_def Let_def)

text \<open>
  C4, as stated, fails on a tick that begins in phase SAFETY while the boost window is
  still flagged active and its time has not run out (a safety command during a boost):
  the phase stays SAFETY, the raw demand and the final percentage are 0 and the damper
  is closed.
\<close>

theorem boost_window_yields_to_safety:
  "boostActive (ramp_fresh\<lparr>burnState := BURN_SAFETY, boostActive := True\<rparr>)
   \<and> (1000 :: millis) - boostStartMs (ramp_fresh\<lparr>burnState := BURN_SAFETY, boostActive := True\<rparr>)
        < (word_of_int (boostTimeSeconds factory_defaults) :: millis) * 1000
   \<and> fst (burnengine_compute factory_defaults 1000 (Fin 300)
        (ramp_fresh\<lparr>burnState := BURN_SAFETY, boostActive := True\<rparr>)) = Some 0
   \<and> burnState (snd (burnengine_compute factory_defaults 1000 (Fin 300)
        (ramp_fresh\<lparr>burnState := BURN_SAFETY, boostActive := True\<rparr>))) = BURN_SAFETY
   \<and> damper (snd (burnengine_compute factory_defaults 1000 (Fin 300)
        (ramp_fresh\<lparr>burnState := BURN_SAFETY, boostActive := True\<rparr>))) = HIGH
   \<and> fst (fan_compute factory_defaults BURN_SAFETY 0
        \<lparr>lastFan = 100, fanOn = True, prevBurnState = BURN_BOOST\<rparr>) = 0"
  by (simp add: factory_defaults_def ramp_fresh_def burnengine_compute_def fan_compute_def
      fancontrol_handleStateChange_def)

text \<open>
  C4, amended. On a tick that does not begin in phase SAFETY, while the boost window is
  active: if the time since the window started (the 32-bit difference of the clock
  values) is strictly less than boostTimeSeconds times 1000 ms, the phase is BOOST, the
  damper relay is written LOW (open), the raw demand is 100 and the final percentage is
  100, whatever the temperature, and the window stays active; otherwise the window closes
  and the tick continues as a tick that begins in RAMP with the window closed, which ends
  in RAMP with raw demand 100 and the damper open when neither the HOLD timer nor the
  coal-bed timer is running and the coal-bed minutes are between 1 and 720.
\<close>

theorem boost_window:
  assumes "burnState s \<noteq> BURN_SAFETY" and "boostActive s"
  shows "(now - boostStartMs s < (word_of_int (boostTimeSeconds c) :: millis) * 1000 \<longrightarrow>
            burnengine_compute c now t s
              = (Some 100, s\<lparr>burnState := BURN_BOOST, damper := LOW\<rparr>)
            \<and> fst (fan_compute c BURN_BOOST 100 f) = 100
            \<and> control_tick c now t (s, f)
                = Some (100, 100, s\<lparr>burnState := BURN_BOOST, damper := LOW\<rparr>,
                        snd (fan_compute c BURN_BOOST 100 f)))
       \<and> (\<not> now - boostStartMs s < (word_of_int (boostTimeSeconds c) :: millis) * 1000 \<longrightarrow>
            burnengine_compute c now t s
              = burnengine_compute c now t (s\<lparr>boostActive := False, burnState := BURN_RAMP\<rparr>)
            \<and> \<not> boostActive (snd (burnengine_compute c now t s))
            \<and> (\<not> holdTimerActive s \<and> \<not> coalbedTimerActive s
                 \<and> 1 \<le> coalBedTimerMinutes c \<and> coalBedTimerMinutes c \<le> 720 \<longrightarrow>
               burnState (snd (burnengine_compute c now t s)) = BURN_RAMP
               \<and> fst (burnengine_compute c now t s) = Some 100
               \<and> damper (snd (burnengine_compute c now t s)) = LOW))"
proof (intro conjI impI)
  assume a: "now - boostStartMs s < (word_of_int (boostTimeSeconds c) :: millis) * 1000"
  show e: "burnengine_compute c now t s = (Some 100, s\<lparr>burnState := BURN_BOOST, damper := LOW\<rparr>)"
    using assms a by (simp add: burnengine_compute_def)
  show "fst (fan_compute c BURN_BOOST 100 f) = 100"
    by (simp add: fan_compute_def)
  show "control_tick c now t (s, f)
          = Some (100, 100, s\<lparr>burnState := BURN_BOOST, damper := LOW\<rparr>,
                  snd (fan_compute c BURN_BOOST 100 f))"
    by (simp add: control_tick_def e fan_compute_def)
next
  assume x: "\<not> now - boostStartMs s < (word_of_int (boostTimeSeconds c) :: millis) * 1000"
  let ?r = "s\<lparr>boostActive := False, burnState := BURN_RAMP\<rparr>"
  show e: "burnengine_compute c now t s = burnengine_compute c now t ?r"
    using assms x by (simp add: burnengine_compute_def Let_def)
  show "\<not> boostActive (snd (burnengine_compute c now t s))"
    unfolding e by (rule tick_keeps_boost_closed) simp
  assume y: "\<not> holdTimerActive s \<and> \<not> coalbedTimerActive s
     \<and> 1 \<le> coalBedTimerMinutes c \<and> coalBedTimerMinutes c \<le> 720"
  have nz: "(word_of_int (coalBedTimerMinutes c) :: millis) * 60 * 1000 \<noteq> 0"
    using required_ms_nonzero [of "coalBedTimerMinutes c"] y by simp
  have nf: "\<not> coalbed_fires c now t ?r"
    using y nz by (simp add: coalbed_fires_def)
  let ?m = "state_machine c now t (coalbed_entry c now t ?r)"
  have m: "burnState ?m = BURN_RAMP"
    using nf y
    by (cases "in_hold_band c t") (simp_all add: state_machine_ramp coalbed_entry_not_fired)
  have t: "burnengine_compute c now t ?r
             = (fan_demand c t (damper_control ?m), damper_control ?m)"
    by (simp add: tick_past_overrides)
  have d: "damper (damper_control ?m) = LOW"
    using m by (simp add: damper_control_def)
  have f: "fan_demand c t (damper_control ?m) = Some 100"
    using m by (simp add: fan_demand_def)
  show "burnState (snd (burnengine_compute c now t s)) = BURN_RAMP"
    unfolding e t using m by simp
  show "fst (burnengine_compute c now t s) = Some 100"
    unfolding e t using f by simp
  show "damper (snd (burnengine_compute c now t s)) = LOW"
    unfolding e t using d by simp
qed

theorem boost_window_witness:
  "burnState (burnengine_init 0 ramp_fresh) \<noteq> BURN_SAFETY
   \<and> boostActive (burnengine_init 0 ramp_fresh)
   \<and> (29999 :: millis) - boostStartMs (burnengine_init 0 ramp_fresh)
        < (word_of_int (boostTimeSeconds factory_defaults) :: millis) * 1000
   \<and> control_tick factory_defaults 29999 (Fin 70)
        (burnengine_init 0 ramp_fresh, fancontrol_init BURN_BOOST)
       = Some (100, 100, (burnengine_init 0 ramp_fresh)\<lparr>burnState := BURN_BOOST, damper := LOW\<rparr>,
               snd (fan_compute factory_defaults BURN_BOOST 100 (fancontrol_init BURN_BOOST)))
   \<and> burnState (snd (burnengine_compute factory_defaults 30000 (Fin 70)
        (burnengine_init 0 ramp_fresh))) = BURN_RAMP
   \<and> fst (burnengine_compute factory_defaults 30000 (Fin 70)
        (burnengine_init 0 ramp_fresh)) = Some 100"
  using boost_window [of "burnengine_init 0 ramp_fresh" 29999 factory_defaults "Fin 70"
      "fancontrol_init BURN_BOOST"]
    boost_window [of "burnengine_init 0 ramp_fresh" 30000 factory_defaults "Fin 70"
      "fancontrol_init BURN_BOOST"]
  by (simp add: factory_defaults_def ramp_fresh_def burnengine_init_def d_of_int_def
      burnengine_compute_def coalbed_entry_def state_machine_def damper_control_def
      fan_demand_def control_tick_def fan_compute_def fancontrol_init_def
      fancontrol_handleStateChange_def HOLD_STABILITY_MS_def Let_def)

text \<open>
  C5, as stated, fails: a firing coal-bed entry does not always leave the phase COALBED.
  With the flue-low threshold at 400 (setpoint 350, deadband 25, 30 minutes) and a
  steady 330, the run from RAMP reaches HOLD at 5000 ms while the entry timer, started
  at 0 ms, keeps running. On the tick at 1800000 ms the entry fires and sets COALBED,
  but 330 is above setpoint - deadband = 325, so the COALBED case of the same call
  returns the phase to RAMP: the tick ends in RAMP with raw demand 100.
\<close>

theorem coalbed_entry_undone_by_exit:
  "burnState (run_ticks (factory_defaults\<lparr>flueLowThreshold := 400, flueRecoveryThreshold := 450\<rparr>)
      ramp_fresh [(0, Fin 330), (5000, Fin 330)]) = BURN_HOLD
   \<and> coalbed_fires (factory_defaults\<lparr>flueLowThreshold := 400, flueRecoveryThreshold := 450\<rparr>)
        1800000 (Fin 330)
        (run_ticks (factory_defaults\<lparr>flueLowThreshold := 400, flueRecoveryThreshold := 450\<rparr>)
           ramp_fresh [(0, Fin 330), (5000, Fin 330)])
   \<and> burnState (run_ticks (factory_defaults\<lparr>flueLowThreshold := 400, flueRecoveryThreshold := 450\<rparr>)
        ramp_fresh [(0, Fin 330), (5000, Fin 330), (1800000, Fin 330)]) = BURN_RAMP
   \<and> fst (burnengine_compute
        (factory_defaults\<lparr>flueLowThreshold := 400, flueRecoveryThreshold := 450\<rparr>)
        1800000 (Fin 330)
        (run_ticks (factory_defaults\<lparr>flueLowThreshold := 400, flueRecoveryThreshold := 450\<rparr>)
           ramp_fresh [(0, Fin 330), (5000, Fin 330)])) = Some 100"
  by (simp add: factory_defaults_def ramp_fresh_def coalbed_fires_def d_of_int_def
      burnengine_compute_def coalbed_entry_def state_machine_def damper_control_def
      fan_demand_def HOLD_STABILITY_MS_def RAMP_STABILITY_MS_def Let_def)

text \<open>
  C5, amended. On a tick that begins outside SAFETY with the boost window closed: when the
  smoothed temperature is below flueLowThreshold the coal-bed entry timer runs (it keeps
  its start, or starts now); once the time since its start (32-bit clock difference)
  reaches coalBedTimerMinutes times 60000 ms the entry fires, whatever the phase was
  (RAMP and HOLD included): the HOLD, RAMP and coal-bed timers are inactive after the
  tick, and the tick ends in COALBED with raw demand 0 when the temperature is not above
  setpoint - deadband, and in RAMP with raw demand 100 when it is (the COALBED exit
  applies within the same tick); the damper is open either way. On a tick on which the
  entry does not fire the timer is running afterwards if the temperature is below the
  threshold and inactive if it is not, and the phase does not become COALBED. A tick that
  begins in SAFETY ends in SAFETY, and a tick inside the boost window ends in BOOST with
  the coal-bed timer untouched. Over any run of ticks that starts with the boost window
  closed and the entry timer inactive, a tick on which the entry fires closes an unbroken
  stretch of ticks below the threshold whose first tick lies at least the configured
  minutes back.
\<close>

theorem coalbed_entry_tick:
  "(burnState s \<noteq> BURN_SAFETY \<and> \<not> boostActive s \<longrightarrow>
      (coalbed_fires c now t s \<longrightarrow>
         \<not> holdTimerActive (snd (burnengine_compute c now t s))
         \<and> \<not> rampTimerActive (snd (burnengine_compute c now t s))
         \<and> \<not> coalbedTimerActive (snd (burnengine_compute c now t s))
         \<and> burnState (snd (burnengine_compute c now t s))
             = (if d_gt t (d_of_int (exhaustSetpoint c - deadbandF c))
                then BURN_RAMP else BURN_COALBED)
         \<and> fst (burnengine_compute c now t s)
             = Some (if d_gt t (d_of_int (exhaustSetpoint c - deadbandF c)) then 100 else 0)
         \<and> damper (snd (burnengine_compute c now t s)) = LOW)
    \<and> (d_lt t (d_of_int (flueLowThreshold c)) \<and> \<not> coalbed_fires c now t s \<longrightarrow>
         coalbedTimerActive (snd (burnengine_compute c now t s))
         \<and> coalbedStartMs (snd (burnengine_compute c now t s))
             = (if coalbedTimerActive s then coalbedStartMs s else now))
    \<and> (\<not> d_lt t (d_of_int (flueLowThreshold c)) \<longrightarrow>
         \<not> coalbedTimerActive (snd (burnengine_compute c now t s)))
    \<and> (\<not> coalbed_fires c now t s \<and> burnState s \<noteq> BURN_COALBED \<longrightarrow>
         burnState (snd (burnengine_compute c now t s)) \<noteq> BURN_COALBED))
   \<and> (burnState s = BURN_SAFETY \<longrightarrow>
        burnState (snd (burnengine_compute c now t s)) = BURN_SAFETY)
   \<and> (burnState s \<noteq> BURN_SAFETY \<and> boostActive s
        \<and> now - boostStartMs s < (word_of_int (boostTimeSeconds c) :: millis) * 1000 \<longrightarrow>
        burnState (snd (burnengine_compute c now t s)) = BURN_BOOST
        \<and> coalbedTimerActive (snd (burnengine_compute c now t s)) = coalbedTimerActive s
        \<and> coalbedStartMs (snd (burnengine_compute c now t s)) = coalbedStartMs s)
   \<and> (\<not> boostActive s0 \<and> \<not> coalbedTimerActive s0
        \<and> coalbed_fires c now t (run_ticks c s0 ts) \<longrightarrow>
        has_low_window c now (ts @ [(now, t)]))"
proof -
  let ?s' = "snd (burnengine_compute c now t s)"
  let ?band = "d_of_int (exhaustSetpoint c - deadbandF c)"
  have safety: "burnState s = BURN_SAFETY \<longrightarrow> burnState ?s' = BURN_SAFETY"
    by (simp add: burnengine_compute_def)
  have boost: "burnState s \<noteq> BURN_SAFETY \<and> boostActive s
        \<and> now - boostStartMs s < (word_of_int (boostTimeSeconds c) :: millis) * 1000 \<longrightarrow>
        burnState ?s' = BURN_BOOST
        \<and> coalbedTimerActive ?s' = coalbedTimerActive s
        \<and> coalbedStartMs ?s' = coalbedStartMs s"
    by (simp add: burnengine_compute_def)
  have fired: "\<not> holdTimerActive ?s' \<and> \<not> rampTimerActive ?s' \<and> \<not> coalbedTimerActive ?s'
         \<and> burnState ?s' = (if d_gt t ?band then BURN_RAMP else BURN_COALBED)
         \<and> fst (burnengine_compute c now t s) = Some (if d_gt t ?band then 100 else 0)
         \<and> damper ?s' = LOW"
    if g: "burnState s \<noteq> BURN_SAFETY" "\<not> boostActive s" and a: "coalbed_fires c now t s"
  proof -
    note f = coalbed_entry_fired [OF a]
    let ?m = "state_machine c now t (coalbed_entry c now t s)"
    have m: "burnState ?m = (if d_gt t ?band then BURN_RAMP else BURN_COALBED)"
        "\<not> holdTimerActive ?m" "\<not> rampTimerActive ?m" "\<not> coalbedTimerActive ?m"
      using f by (simp_all add: state_machine_coalbed)
    have e: "burnengine_compute c now t s
        = (fan_demand c t (damper_control ?m), damper_control ?m)"
      using g by (simp add: tick_past_overrides)
    have d: "damper (damper_control ?m) = LOW"
      using m(1) by (simp add: damper_control_def)
    have fd: "fan_demand c t (damper_control ?m) = Some (if d_gt t ?band then 100 else 0)"
      using m(1) by (simp add: fan_demand_def)
    show ?thesis unfolding e using m d fd by simp
  qed
  have running: "d_lt t (d_of_int (flueLowThreshold c)) \<and> \<not> coalbed_fires c now t s \<longrightarrow>
         coalbedTimerActive ?s'
         \<and> coalbedStartMs ?s' = (if coalbedTimerActive s then coalbedStartMs s else now)"
    if g: "burnState s \<noteq> BURN_SAFETY" "\<not> boostActive s"
    using g by (simp add: tick_past_overrides coalbed_entry_not_fired)
  have cancelled: "\<not> d_lt t (d_of_int (flueLowThreshold c)) \<longrightarrow> \<not> coalbedTimerActive ?s'"
    if g: "burnState s \<noteq> BURN_SAFETY" "\<not> boostActive s"
    using g by (simp add: tick_past_overrides coalbed_entry_def)
  have kept: "burnState ?s' \<noteq> BURN_COALBED"
    if g: "burnState s \<noteq> BURN_SAFETY" "\<not> boostActive s"
      and n: "\<not> coalbed_fires c now t s" "burnState s \<noteq> BURN_COALBED"
  proof -
    have "burnState (coalbed_entry c now t s) = burnState s"
      by (simp add: coalbed_entry_not_fired [OF n(1)])
    then have "burnState (coalbed_entry c now t s) \<noteq> BURN_COALBED" using n(2) by simp
    then have "burnState (state_machine c now t (coalbed_entry c now t s)) \<noteq> BURN_COALBED"
      by (rule state_machine_no_coalbed)
    then show ?thesis using g by (simp add: tick_past_overrides)
  qed
  show ?thesis
    using safety boost fired running cancelled kept coalbed_never_early [of s0 c now t ts]
    by blast
qed

theorem coalbed_entry_tick_witness:
  "coalbed_fires factory_defaults 1800000 (Fin 200)
      (ramp_fresh\<lparr>burnState := BURN_HOLD, coalbedTimerActive := True\<rparr>)
   \<and> burnState (snd (burnengine_compute factory_defaults 1800000 (Fin 200)
        (ramp_fresh\<lparr>burnState := BURN_HOLD, coalbedTimerActive := True\<rparr>))) = BURN_COALBED
   \<and> fst (burnengine_compute factory_defaults 1800000 (Fin 200)
        (ramp_fresh\<lparr>burnState := BURN_HOLD, coalbedTimerActive := True\<rparr>)) = Some 0
   \<and> coalbedTimerActive (snd (burnengine_compute factory_defaults 1799999 (Fin 200)
        (ramp_fresh\<lparr>burnState := BURN_HOLD, coalbedTimerActive := True\<rparr>)))
   \<and> burnState (snd (burnengine_compute factory_defaults 1799999 (Fin 200)
        (ramp_fresh\<lparr>burnState := BURN_HOLD, coalbedTimerActive := True\<rparr>))) = BURN_HOLD
   \<and> \<not> coalbedTimerActive (snd (burnengine_compute factory_defaults 1799999 (Fin 250)
        (ramp_fresh\<lparr>burnState := BURN_HOLD, coalbedTimerActive := True\<rparr>)))
   \<and> burnState (snd (burnengine_compute factory_defaults 1800000 (Fin 200)
        (ramp_fresh\<lparr>burnState := BURN_SAFETY, coalbedTimerActive := True\<rparr>))) = BURN_SAFETY
   \<and> burnState (snd (burnengine_compute factory_defaults 1800000 (Fin 200)
        (ramp_fresh\<lparr>burnState := BURN_BOOST, boostActive := True, boostStartMs := 1799000,
           coalbedTimerActive := True\<rparr>))) = BURN_BOOST
   \<and> coalbed_fires factory_defaults 1800000 (Fin 200)
        (run_ticks factory_defaults ramp_fresh [(0, Fin 200)])
   \<and> has_low_window factory_defaults 1800000 [(0, Fin 200), (1800000, Fin 200)]"
  using coalbed_entry_tick [of "ramp_fresh\<lparr>burnState := BURN_HOLD, coalbedTimerActive := True\<rparr>"
      factory_defaults 1800000 "Fin 200" ramp_fresh "[(0, Fin 200)]"]
    coalbed_entry_tick [of "ramp_fresh\<lparr>burnState := BURN_HOLD, coalbedTimerActive := True\<rparr>"
      factory_defaults 1799999 "Fin 200"]
    coalbed_entry_tick [of "ramp_fresh\<lparr>burnState := BURN_HOLD, coalbedTimerActive := True\<rparr>"
      factory_defaults 1799999 "Fin 250"]
    coalbed_entry_tick [of "ramp_fresh\<lparr>burnState := BURN_SAFETY, coalbedTimerActive := True\<rparr>"
      factory_defaults 1800000 "Fin 200"]
    coalbed_entry_tick [of "ramp_fresh\<lparr>burnState := BURN_BOOST, boostActive := True,
      boostStartMs := 1799000, coalbedTimerActive := True\<rparr>" factory_defaults 1800000 "Fin 200"]
  by (simp add: factory_defaults_def ramp_fresh_def coalbed_fires_def d_of_int_def
      below_flue_low_def burnengine_compute_def coalbed_entry_def state_machine_def
      damper_control_def fan_demand_def in_hold_band_def HOLD_STABILITY_MS_def
      RAMP_STABILITY_MS_def hold_fan_curve_def constrain_def trunc_real_def Let_def)




text \<open>
  C7, as stated, fails: with deadzone-fan-mode on the result is floored at clamp-minimum,
  but clamp-minimum may be 0 (the editor accepts 0 to 100), and then the floor does not
  keep the fan running: in COALBED with raw demand 0 and a smoothing memory that has
  decayed to 0 the final percentage is 0.
\<close>

theorem constant_airflow_can_stop:
  "clampMinPercent (factory_defaults\<lparr>clampMinPercent := 0, deadzoneFanMode := 1\<rparr>) = 0
   \<and> deadzoneFanMode (factory_defaults\<lparr>clampMinPercent := 0, deadzoneFanMode := 1\<rparr>) = 1
   \<and> fst (fan_compute (factory_defaults\<lparr>clampMinPercent := 0, deadzoneFanMode := 1\<rparr>)
        BURN_COALBED 0 \<lparr>lastFan = 0, fanOn = True, prevBurnState = BURN_COALBED\<rparr>) = 0"
  by (simp add: fan_compute_def fancontrol_handleStateChange_def factory_defaults_def
      c_div_def Let_def)

text \<open>
  C7, amended. On a tick whose phase is neither BOOST nor SAFETY: with deadzone-fan-mode
  on, the final percentage is at least clamp-minimum, hence never 0 when clamp-minimum is
  at least 1. With the mode off, on the memory as the phase-change handling leaves it
  and the smoothed demand clamped to clamp-maximum: a fan that was off is on afterwards
  exactly when that demand is strictly above clamp-minimum + 10, a fan that was on is off
  afterwards exactly when it is strictly below clamp-minimum, the returned percentage
  is 0 while the fan is off and the clamped demand while it is on. The phase-change
  handling itself switches the fan off only on a change of phase into IDLE.
\<close>

theorem deadzone_and_hysteresis:
  assumes "phase \<noteq> BURN_BOOST" and "phase \<noteq> BURN_SAFETY"
  shows "(deadzoneFanMode c = 1 \<longrightarrow>
            clampMinPercent c \<le> fst (fan_compute c phase demand f)
            \<and> (1 \<le> clampMinPercent c \<longrightarrow> fst (fan_compute c phase demand f) \<noteq> 0))
       \<and> (deadzoneFanMode c \<noteq> 1 \<longrightarrow>
            (\<not> fanOn (fancontrol_handleStateChange phase f) \<longrightarrow>
               (fanOn (snd (fan_compute c phase demand f)) \<longleftrightarrow>
                  min (c_div (lastFan (fancontrol_handleStateChange phase f) * 3 + demand) 4)
                      (clampMaxPercent c) > clampMinPercent c + 10))
            \<and> (fanOn (fancontrol_handleStateChange phase f) \<longrightarrow>
               (\<not> fanOn (snd (fan_compute c phase demand f)) \<longleftrightarrow>
                  min (c_div (lastFan (fancontrol_handleStateChange phase f) * 3 + demand) 4)
                      (clampMaxPercent c) < clampMinPercent c))
            \<and> (\<not> fanOn (snd (fan_compute c phase demand f)) \<longrightarrow>
                 fst (fan_compute c phase demand f) = 0)
            \<and> (fanOn (snd (fan_compute c phase demand f)) \<longrightarrow>
                 fst (fan_compute c phase demand f)
                   = min (c_div (lastFan (fancontrol_handleStateChange phase f) * 3 + demand) 4)
                       (clampMaxPercent c)))
       \<and> fanOn (fancontrol_handleStateChange phase f)
           = (if phase = BURN_IDLE \<and> prevBurnState f \<noteq> BURN_IDLE then False else fanOn f)"
  using assms
  by (auto simp add: fan_compute_shaped fancontrol_handleStateChange_def Let_def)

theorem deadzone_and_hysteresis_witness:
  "BURN_HOLD \<noteq> BURN_BOOST \<and> BURN_HOLD \<noteq> BURN_SAFETY
   \<and> fst (fan_compute (factory_defaults\<lparr>deadzoneFanMode := 1\<rparr>) BURN_HOLD 0
        \<lparr>lastFan = 0, fanOn = False, prevBurnState = BURN_HOLD\<rparr>) = 10
   \<and> fst (fan_compute factory_defaults BURN_HOLD 80
        \<lparr>lastFan = 0, fanOn = False, prevBurnState = BURN_HOLD\<rparr>) = 0
   \<and> fst (fan_compute factory_defaults BURN_HOLD 84
        \<lparr>lastFan = 0, fanOn = False, prevBurnState = BURN_HOLD\<rparr>) = 21
   \<and> fst (fan_compute factory_defaults BURN_HOLD 10
        \<lparr>lastFan = 10, fanOn = True, prevBurnState = BURN_HOLD\<rparr>) = 10
   \<and> fst (fan_compute factory_defaults BURN_HOLD 10
        \<lparr>lastFan = 9, fanOn = True, prevBurnState = BURN_HOLD\<rparr>) = 0"
  using deadzone_and_hysteresis [of BURN_HOLD "factory_defaults\<lparr>deadzoneFanMode := 1\<rparr>" 0
      "\<lparr>lastFan = 0, fanOn = False, prevBurnState = BURN_HOLD\<rparr>"]
    deadzone_and_hysteresis [of BURN_HOLD factory_defaults 80
      "\<lparr>lastFan = 0, fanOn = False, prevBurnState = BURN_HOLD\<rparr>"]
    deadzone_and_hysteresis [of BURN_HOLD factory_defaults 84
      "\<lparr>lastFan = 0, fanOn = False, prevBurnState = BURN_HOLD\<rparr>"]
    deadzone_and_hysteresis [of BURN_HOLD factory_defaults 10
      "\<lparr>lastFan = 10, fanOn = True, prevBurnState = BURN_HOLD\<rparr>"]
    deadzone_and_hysteresis [of BURN_HOLD factory_defaults 10
      "\<lparr>lastFan = 9, fanOn = True, prevBurnState = BURN_HOLD\<rparr>"]
  by (simp add: fan_compute_def fancontrol_handleStateChange_def factory_defaults_def
      c_div_def Let_def)

text \<open>
  C6, as stated, fails where the error is not a whole number: the code converts the
  linear term to \<open>int\<close>, which drops the fraction. With setpoint 350, clamp 10 to 100 and
  a smoothed temperature of 344.75 the error is 5.25; the specification's curve gives
  10 + 0.25 * 2 = 10.5, the code returns 10.
\<close>

theorem hold_curve_drops_fraction:
  "burnState (snd (burnengine_compute factory_defaults 1000 (Fin 344.75)
      (ramp_fresh\<lparr>burnState := BURN_HOLD\<rparr>))) = BURN_HOLD
   \<and> fst (burnengine_compute factory_defaults 1000 (Fin 344.75)
      (ramp_fresh\<lparr>burnState := BURN_HOLD\<rparr>)) = Some 10
   \<and> hold_curve_spec factory_defaults
        (real_of_int (exhaustSetpoint factory_defaults) - 344.75) = 10.5"
  by (simp add: factory_defaults_def ramp_fresh_def d_of_int_def
      burnengine_compute_def coalbed_entry_def state_machine_def damper_control_def
      fan_demand_def hold_fan_curve_def hold_curve_spec_def clamp_into_def constrain_def
      trunc_real_def RAMP_STABILITY_MS_def Let_def)

text \<open>
  C6, amended. On every tick that ends in phase HOLD with a finite smoothed temperature,
  clamp settings with 0 \<le> clampMin \<le> clampMax \<le> 100 and an error
  (setpoint - smoothed temperature) below 2^30, the raw demand is the specification's
  curve truncated toward zero to an integer: clampMin when error \<le> 5;
  clampMin + (error - 5) * 2 capped at 80 and clamped into [clampMin, clampMax] when
  5 < error \<le> 25; 50 + (error - 25) * 2, capped at 80 when error \<le> 40, clamped into
  [clampMin, 100] when error > 25. On whole-number errors nothing is dropped: error 5
  gives clampMin, error 25 gives min(clampMin + 40, 80) clamped into [clampMin, clampMax],
  error 50 gives 100.
\<close>

theorem hold_fan_curve_law:
  assumes "0 \<le> clampMinPercent c" and "clampMinPercent c \<le> clampMaxPercent c"
    and "clampMaxPercent c \<le> 100"
    and "burnState (snd (burnengine_compute c now (Fin x) s)) = BURN_HOLD"
    and "real_of_int (exhaustSetpoint c) - x < 2 ^ 30"
  shows "fst (burnengine_compute c now (Fin x) s)
           = Some (trunc_real (hold_curve_spec c (real_of_int (exhaustSetpoint c) - x)))
       \<and> trunc_real (hold_curve_spec c 5) = clampMinPercent c
       \<and> trunc_real (hold_curve_spec c 25)
           = clamp_into (clampMinPercent c) (clampMaxPercent c) (min (clampMinPercent c + 40) 80)
       \<and> trunc_real (hold_curve_spec c 50) = 100"
proof -
  have a: "fst (burnengine_compute c now (Fin x) s)
           = Some (trunc_real (hold_curve_spec c (real_of_int (exhaustSetpoint c) - x)))"
    using hold_phase_demand [OF assms(4)] hold_fan_curve_value [OF assms(1,2,3,5)]
    by simp
  have b: "trunc_real (hold_curve_spec c 5) = clampMinPercent c"
    by (simp add: hold_curve_spec_def)
  have "hold_curve_spec c 25
          = real_of_int (clamp_into (clampMinPercent c) (clampMaxPercent c)
              (min (clampMinPercent c + 40) 80))"
    by (simp add: hold_curve_spec_def clamp_into_def min_def max_def)
  then have d: "trunc_real (hold_curve_spec c 25)
           = clamp_into (clampMinPercent c) (clampMaxPercent c) (min (clampMinPercent c + 40) 80)"
    by (simp only: trunc_real_of_int)
  have "hold_curve_spec c 50 = real_of_int 100"
    using assms(1,2,3) by (simp add: hold_curve_spec_def clamp_into_def min_def max_def)
  then have e: "trunc_real (hold_curve_spec c 50) = 100"
    by (simp only: trunc_real_of_int)
  show ?thesis using a b d e by simp
qed

theorem hold_fan_curve_law_witness:
  "0 \<le> clampMinPercent factory_defaults
   \<and> clampMinPercent factory_defaults \<le> clampMaxPercent factory_defaults
   \<and> clampMaxPercent factory_defaults \<le> 100
   \<and> burnState (snd (burnengine_compute factory_defaults 1000 (Fin 344.75)
        (ramp_fresh\<lparr>burnState := BURN_HOLD\<rparr>))) = BURN_HOLD
   \<and> real_of_int (exhaustSetpoint factory_defaults) - 344.75 < 2 ^ 30
   \<and> fst (burnengine_compute factory_defaults 1000 (Fin 344.75)
        (ramp_fresh\<lparr>burnState := BURN_HOLD\<rparr>)) = Some 10
   \<and> trunc_real (hold_curve_spec factory_defaults 25) = 50"
  using hold_fan_curve_law [of factory_defaults 1000 "344.75" "ramp_fresh\<lparr>burnState := BURN_HOLD\<rparr>"]
  by (simp add: factory_defaults_def ramp_fresh_def d_of_int_def
      burnengine_compute_def coalbed_entry_def state_machine_def damper_control_def
      fan_demand_def hold_fan_curve_def hold_curve_spec_def clamp_into_def constrain_def
      trunc_real_def RAMP_STABILITY_MS_def Let_def)

text \<open>
  C8. On a call of \<open>exhaust_readF_cached\<close> that attempts a read (500 ms or more since the
  last attempt, as the 32-bit clock difference), a frame that has the fault bit set, or
  whose temperature lies outside -100..2000 degrees F, or differs from the cached value
  by more than 150 degrees F, leaves the cached value as it was, and the call returns that
  cached value (the last accepted one, or not-a-number when none was accepted yet); any
  other frame becomes the cached and returned value. A call inside the cadence interval
  reads nothing and returns the cached value. Hence, after any sequence of calls from
  the initial state, the cached value is either not-a-number or within -100..2000: an
  out-of-range sample never shows in it.
\<close>

theorem rejected_sample_keeps_cache:
  "(500 \<le> now - lastTCRead s \<and> sample_rejected (lastTCValueF s) bs \<longrightarrow>
      exhaust_readF_cached now bs s = (lastTCValueF s, s\<lparr>lastTCRead := now\<rparr>))
   \<and> (500 \<le> now - lastTCRead s \<and> \<not> sample_rejected (lastTCValueF s) bs \<longrightarrow>
      exhaust_readF_cached now bs s
        = (Fin (tempF bs), s\<lparr>lastTCRead := now, lastTCValueF := Fin (tempF bs)\<rparr>))
   \<and> (\<not> 500 \<le> now - lastTCRead s \<longrightarrow>
      exhaust_readF_cached now bs s = (lastTCValueF s, s))
   \<and> cache_plausible (lastTCValueF (read_run sensors_initial rs))"
proof -
  have "cache_plausible (lastTCValueF sensors_initial)"
    by (simp add: sensors_initial_def cache_plausible_def)
  then have "cache_plausible (lastTCValueF (read_run sensors_initial rs))"
    by (rule read_run_plausible)
  then show ?thesis
    using read_rejected [of now s bs] read_accepted [of now s bs] read_within_cadence [of now s bs]
    by blast
qed

theorem rejected_sample_keeps_cache_witness:
  "sample_rejected (Fin 212) (0x4B, 0, 0, 0)
   \<and> exhaust_readF_cached 1000 (0x4B, 0, 0, 0) \<lparr>lastTCRead = 500, lastTCValueF = Fin 212\<rparr>
       = (Fin 212, \<lparr>lastTCRead = 1000, lastTCValueF = Fin 212\<rparr>)
   \<and> exhaust_readF_cached 1000 (0x06, 0x40, 0, 0) \<lparr>lastTCRead = 500, lastTCValueF = NaN\<rparr>
       = (Fin 212, \<lparr>lastTCRead = 1000, lastTCValueF = Fin 212\<rparr>)
   \<and> exhaust_readF_cached 999 (0x06, 0x40, 0, 0) \<lparr>lastTCRead = 500, lastTCValueF = NaN\<rparr>
       = (NaN, \<lparr>lastTCRead = 500, lastTCValueF = NaN\<rparr>)
   \<and> lastTCValueF (read_run sensors_initial
        [(500, (0x06, 0x40, 0, 0)), (1000, (0x4B, 0, 0, 0)), (1500, (0x0C, 0x80, 0, 0)),
         (2000, (0x06, 0x41, 0, 0)), (2500, (0xF9, 0xC0, 0, 0))]) = Fin 212"
  using rejected_sample_keeps_cache [of 1000 "\<lparr>lastTCRead = 500, lastTCValueF = Fin 212\<rparr>"
      "(0x4B, 0, 0, 0)" "[]"]
    rejected_sample_keeps_cache [of 1000 "\<lparr>lastTCRead = 500, lastTCValueF = NaN\<rparr>"
      "(0x06, 0x40, 0, 0)" "[]"]
    rejected_sample_keeps_cache [of 999 "\<lparr>lastTCRead = 500, lastTCValueF = NaN\<rparr>"
      "(0x06, 0x40, 0, 0)" "[]"]
  by (simp add: sample_rejected_def frame_values exhaust_readF_cached_def
      readMAX31855_F_def sensors_initial_def Let_def)

text \<open>
  C9. The configuration that the start-up load (\<open>eeprom_init\<close>, from any version byte and
  any stored cells) followed by any sequence of parameter edits with any entered values
  leaves behind satisfies clampMinPercent \<le> clampMaxPercent and
  flueRecoveryThreshold \<ge> flueLowThreshold + 10. No edit is refused; the dependent bound
  gives way. An edit of clamp-maximum stores the entry (brought into 0..100) and lowers
  clamp-minimum to it if needed; an edit of clamp-minimum leaves clamp-maximum alone and
  stores the entry capped at clamp-maximum; an edit of the flue-low threshold stores the
  entry (brought into 200..500) and moves a recovery threshold that is then less than 10
  above it (or was above 900) to flue-low + 50; an edit of the recovery threshold leaves
  flue-low alone and stores the entry brought into flue-low + 10 .. 600 (flue-low + 50
  where that interval is empty).
\<close>

theorem settings_stay_consistent:
  "settings_consistent (ui_commits (eeprom_init ver stored) es)
   \<and> clampMaxPercent (ui_commit UI_CLAMP_MAX v (ui_commits (eeprom_init ver stored) es))
       = clamp_into 0 100 v
   \<and> clampMinPercent (ui_commit UI_CLAMP_MAX v (ui_commits (eeprom_init ver stored) es))
       = min (clampMinPercent (ui_commits (eeprom_init ver stored) es)) (clamp_into 0 100 v)
   \<and> clampMaxPercent (ui_commit UI_CLAMP_MIN v (ui_commits (eeprom_init ver stored) es))
       = clampMaxPercent (ui_commits (eeprom_init ver stored) es)
   \<and> clampMinPercent (ui_commit UI_CLAMP_MIN v (ui_commits (eeprom_init ver stored) es))
       = min (clamp_into 0 100 v) (clampMaxPercent (ui_commits (eeprom_init ver stored) es))
   \<and> flueLowThreshold (ui_commit UI_FLUE_LOW v (ui_commits (eeprom_init ver stored) es))
       = clamp_into 200 500 v
   \<and> flueRecoveryThreshold (ui_commit UI_FLUE_LOW v (ui_commits (eeprom_init ver stored) es))
       = (if flueRecoveryThreshold (ui_commits (eeprom_init ver stored) es) > 900
             \<or> flueRecoveryThreshold (ui_commits (eeprom_init ver stored) es)
                 < clamp_into 200 500 v + 10
          then clamp_into 200 500 v + 50
          else flueRecoveryThreshold (ui_commits (eeprom_init ver stored) es))
   \<and> flueLowThreshold (ui_commit UI_FLUE_REC v (ui_commits (eeprom_init ver stored) es))
       = flueLowThreshold (ui_commits (eeprom_init ver stored) es)
   \<and> flueRecoveryThreshold (ui_commit UI_FLUE_REC v (ui_commits (eeprom_init ver stored) es))
       = (if flueLowThreshold (ui_commits (eeprom_init ver stored) es) + 10 > 600
          then flueLowThreshold (ui_commits (eeprom_init ver stored) es) + 50
          else clamp_into (flueLowThreshold (ui_commits (eeprom_init ver stored) es) + 10)
                 600 v)"
proof -
  have val: "settings_valid (ui_commits (eeprom_init ver stored) es)"
    by (rule ui_commits_valid) (rule eeprom_init_valid)
  show ?thesis
    using settings_valid_consistent [OF val] clamp_max_edit [OF val, of v]
      clamp_min_edit [OF val, of v] flue_low_edit [OF val, of v] flue_rec_edit [OF val, of v]
    by blast
qed

theorem settings_stay_consistent_witness:
  "settings_consistent (ui_commits
      (eeprom_init 1 (factory_defaults\<lparr>clampMinPercent := 90, clampMaxPercent := 20,
         flueRecoveryThreshold := 100\<rparr>))
      [(UI_CLAMP_MIN, 70), (UI_FLUE_LOW, 490)])
   \<and> clampMinPercent (ui_commit UI_CLAMP_MAX 5 (ui_commits
      (eeprom_init 1 (factory_defaults\<lparr>clampMinPercent := 90, clampMaxPercent := 20,
         flueRecoveryThreshold := 100\<rparr>))
      [(UI_CLAMP_MIN, 70), (UI_FLUE_LOW, 490)])) = 5"
proof -
  have "clampMinPercent (ui_commits
      (eeprom_init 1 (factory_defaults\<lparr>clampMinPercent := 90, clampMaxPercent := 20,
         flueRecoveryThreshold := 100\<rparr>))
      [(UI_CLAMP_MIN, 70), (UI_FLUE_LOW, 490)]) = 20"
    by (simp add: eeprom_init_def eeprom_saveAll_def EEPROM_VERSION_def factory_defaults_def
        eeprom_saveClampMin_def eeprom_saveFlueLow_def validateSettings_def repair_defs
        to_int16_def Let_def)
  then show ?thesis
    using settings_stay_consistent [of 1 "factory_defaults\<lparr>clampMinPercent := 90,
      clampMaxPercent := 20, flueRecoveryThreshold := 100\<rparr>"
      "[(UI_CLAMP_MIN, 70), (UI_FLUE_LOW, 490)]" 5]
    by (simp add: clamp_into_def)
qed


end
